theory Spec2Isabelle
  imports Complex_Main "HOL-Library.Sublist"
begin

section \<open>Python values and strings\<close>

text \<open>
  The functions verified here are dynamically typed: \<open>find_nearest_ports\<close> tests the
  class of its arguments with \<open>isinstance\<close>, and a cell of a data frame holds a number, a
  string or nothing. Values are therefore a sum of the classes that reach the code. A
  Python float is a finite real or one of the three special values; rounding of the
  binary representation is not modelled. \<open>numpy.float64\<close> is a subclass of \<open>float\<close>
  and is covered by \<open>PyFloat\<close>; \<open>numpy.int64\<close>, the scalar of an integer column, is not
  a subclass of \<open>int\<close> and has a constructor of its own.
\<close>

datatype pyfloat = Finite real | PosInf | NegInf | NaN

datatype pyval =
    PyNone
  | PyBool bool
  | PyInt int
  | PyFloat pyfloat
  | PyStr string
  | NpInt64 int

datatype py_exception = ValueError | IndexError | KeyError

text \<open>\<open>isinstance(v, (int, float))\<close>; \<open>bool\<close> is a subclass of \<open>int\<close>.\<close>

fun isinstance_int_float :: "pyval \<Rightarrow> bool" where
  "isinstance_int_float (PyBool _) = True"
| "isinstance_int_float (PyInt _) = True"
| "isinstance_int_float (PyFloat _) = True"
| "isinstance_int_float _ = False"

text \<open>A float that is a finite number: what the specification asks of a coordinate.\<close>

fun is_finite_number :: "pyval \<Rightarrow> bool" where
  "is_finite_number (PyBool _) = True"
| "is_finite_number (PyInt _) = True"
| "is_finite_number (PyFloat (Finite _)) = True"
| "is_finite_number _ = False"

text \<open>
  \<open>str.lower()\<close> on ASCII text, and the substring test \<open>needle in haystack\<close>. Port names
  and the keywords of the axis heuristics are ASCII.
\<close>

definition lower_char :: "char \<Rightarrow> char" where
  "lower_char c =
     (case map_of (zip ''ABCDEFGHIJKLMNOPQRSTUVWXYZ'' ''abcdefghijklmnopqrstuvwxyz'') c of
        Some d \<Rightarrow> d
      | None \<Rightarrow> c)"

definition lower :: "string \<Rightarrow> string" where
  "lower s = map lower_char s"

fun substring_of :: "string \<Rightarrow> string \<Rightarrow> bool" where
  "substring_of needle [] = (needle = [])"
| "substring_of needle (h # t) = (prefix needle (h # t) \<or> substring_of needle t)"

text \<open>\<open>round(x, 2)\<close>: to the nearest hundredth, a tie going to the even neighbour.\<close>

definition round2 :: "real \<Rightarrow> real" where
  "round2 x =
     (let y = x * 100; f = \<lfloor>y\<rfloor>; r = y - of_int f in
        (if r < 1 / 2 then of_int f
         else if 1 / 2 < r then of_int (f + 1)
         else if even f then of_int f
         else of_int (f + 1)) / 100)"

text \<open>The slice \<open>xs[:n]\<close>; a negative \<open>n\<close> counts from the end.\<close>

definition slice_to :: "int \<Rightarrow> 'a list \<Rightarrow> 'a list" where
  "slice_to n xs = (if 0 \<le> n then take (nat n) xs else take (length xs - nat (- n)) xs)"

section \<open>The port catalog and the nearest-port search (map\_feature.py)\<close>

record port =
  name :: string
  lat :: real
  lon :: real

record candidate = port +
  distance_from_float :: real

definition GLOBAL_OCEAN_PORTS :: "port list" where
  "GLOBAL_OCEAN_PORTS =
    [\<lparr>name = ''Durban, South Africa'', lat = - 29.8587, lon = 31.0218\<rparr>,
     \<lparr>name = ''Mombasa, Kenya'', lat = - 4.0500, lon = 39.6667\<rparr>,
     \<lparr>name = ''Chennai, India'', lat = 13.0827, lon = 80.2707\<rparr>,
     \<lparr>name = ''Colombo, Sri Lanka'', lat = 6.9271, lon = 79.8612\<rparr>,
     \<lparr>name = ''Chittagong, Bangladesh'', lat = 22.3475, lon = 91.8123\<rparr>,
     \<lparr>name = ''Port Louis, Mauritius'', lat = - 20.1610, lon = 57.5029\<rparr>,
     \<lparr>name = ''Singapore'', lat = 1.290270, lon = 103.851959\<rparr>,
     \<lparr>name = ''Shanghai, China'', lat = 31.2304, lon = 121.4737\<rparr>,
     \<lparr>name = ''Yokohama, Japan'', lat = 35.4437, lon = 139.6380\<rparr>,
     \<lparr>name = ''Los Angeles, USA'', lat = 33.7297, lon = - 118.2625\<rparr>,
     \<lparr>name = ''Sydney, Australia'', lat = - 33.8688, lon = 151.2093\<rparr>,
     \<lparr>name = ''Rotterdam, Netherlands'', lat = 51.9244, lon = 4.4777\<rparr>,
     \<lparr>name = ''New York, USA'', lat = 40.7306, lon = - 73.9865\<rparr>,
     \<lparr>name = ''Santos, Brazil'', lat = - 23.9910, lon = - 46.3813\<rparr>,
     \<lparr>name = ''Lagos, Nigeria'', lat = 6.4531, lon = 3.3958\<rparr>]"

text \<open>
  \<open>geopy.distance.distance(a, b).km\<close> belongs to a library outside the repository. It is a
  parameter of the model: a function of two coordinate pairs that raises or yields a
  number of kilometres. Every theorem holds for every such function.
\<close>

type_synonym point = "pyval \<times> pyval"
type_synonym geodesic = "point \<Rightarrow> point \<Rightarrow> py_exception + real"

definition port_coords :: "'a port_scheme \<Rightarrow> point" where
  "port_coords p = (PyFloat (Finite (lat p)), PyFloat (Finite (lon p)))"

text \<open>The loop of \<open>find_nearest_ports\<close> over the catalog, appending one entry per port.\<close>

fun port_distances :: "geodesic \<Rightarrow> point \<Rightarrow> port list \<Rightarrow> py_exception + candidate list" where
  "port_distances geo float_coords [] = Inr []"
| "port_distances geo float_coords (p # ps) =
     (case geo float_coords (port_coords p) of
        Inl e \<Rightarrow> Inl e
      | Inr distance_km \<Rightarrow>
          (case port_distances geo float_coords ps of
             Inl e \<Rightarrow> Inl e
           | Inr rest \<Rightarrow>
               Inr (\<lparr>name = name p, lat = lat p, lon = lon p,
                     distance_from_float = round2 distance_km\<rparr> # rest)))"

definition find_nearest_ports ::
    "geodesic \<Rightarrow> pyval \<Rightarrow> pyval \<Rightarrow> int \<Rightarrow> py_exception + candidate list" where
  "find_nearest_ports geo float_lat float_lon num_ports =
     (if \<not> isinstance_int_float float_lat \<or> \<not> isinstance_int_float float_lon then Inr []
      else
        (case port_distances geo (float_lat, float_lon) GLOBAL_OCEAN_PORTS of
           Inl e \<Rightarrow> Inl e
         | Inr distances \<Rightarrow> Inr (slice_to num_ports (sort_key distance_from_float distances))))"

text \<open>
  A concrete distance function with the interface of the library's, for running the model
  on inputs: it refuses coordinates that are not finite numbers or a latitude outside
  \<open>[-90, 90]\<close>, as the library does, and measures 111 km per degree along the two axes.
\<close>

fun coordinate :: "pyval \<Rightarrow> real option" where
  "coordinate (PyBool b) = Some (if b then 1 else 0)"
| "coordinate (PyInt i) = Some (of_int i)"
| "coordinate (PyFloat (Finite x)) = Some x"
| "coordinate _ = None"

definition grid_km :: geodesic where
  "grid_km a b =
     (case (coordinate (fst a), coordinate (snd a), coordinate (fst b), coordinate (snd b)) of
        (Some x1, Some y1, Some x2, Some y2) \<Rightarrow>
          if \<bar>x1\<bar> \<le> 90 \<and> \<bar>x2\<bar> \<le> 90 then Inr (111 * (\<bar>x1 - x2\<bar> + \<bar>y1 - y2\<bar>))
          else Inl ValueError
      | _ \<Rightarrow> Inl ValueError)"

section \<open>Data frames\<close>

text \<open>
  A pandas frame is a row count and an ordered list of labelled columns, each with its
  dtype and its cells. Column labels are distinct, as in every frame built from a list of
  row mappings, so \<open>df[c]\<close> is the one column labelled \<open>c\<close>.
\<close>

datatype np_dtype = Int64 | Float64 | Boolean | Datetime64 | Object

record series =
  label :: string
  dtype :: np_dtype
  cells :: "pyval list"

record dataframe =
  nrows :: nat
  frame_series :: "series list"

definition df_empty :: "dataframe \<Rightarrow> bool" where
  "df_empty df = (nrows df = 0 \<or> frame_series df = [])"

definition df_columns :: "dataframe \<Rightarrow> string list" where
  "df_columns df = map label (frame_series df)"

definition getitem :: "dataframe \<Rightarrow> string \<Rightarrow> py_exception + series" where
  "getitem df c = (case find (\<lambda>s. label s = c) (frame_series df) of None \<Rightarrow> Inl KeyError | Some s \<Rightarrow> Inr s)"

definition iloc0 :: "series \<Rightarrow> py_exception + pyval" where
  "iloc0 s = (case cells s of [] \<Rightarrow> Inl IndexError | v # _ \<Rightarrow> Inr v)"

section \<open>Route assembly (render\_map\_with\_route)\<close>

text \<open>
  The function draws a figure and a table; the model keeps what it computes, the list
  \<open>route_details\<close>, and every way it stops early. The float identifier and the
  translation function only reach display text and are left out.
\<close>

text \<open>
  The ways the function stops without a route: an exception, or one of its four notices
  followed by \<open>return\<close> (empty frame; no latitude or longitude; no nearest port;
  destination not in the catalog).
\<close>

datatype failure =
    Raised py_exception
  | NoFloatData
  | NoCoordinates
  | NoNearestPort
  | DestinationNotFound

text \<open>An entry of \<open>route_details\<close>; \<open>via\<close> is its key \<open>"name"\<close>, the transfer port.\<close>

record route_detail =
  via :: string
  total_distance :: real
  distance_to_port :: real
  is_primary :: bool

text \<open>
  \<open>next((p for p in GLOBAL_OCEAN_PORTS if dest_name.lower() in p["name"].lower()), None)\<close>
\<close>

definition find_destination :: "string \<Rightarrow> port option" where
  "find_destination dest_name =
     find (\<lambda>p. substring_of (lower dest_name) (lower (name p))) GLOBAL_OCEAN_PORTS"

text \<open>The loop \<open>for i, port in enumerate(nearest_ports)\<close>, from index \<open>i\<close> on.\<close>

fun route_loop :: "geodesic \<Rightarrow> port \<Rightarrow> nat \<Rightarrow> candidate list \<Rightarrow> py_exception + route_detail list" where
  "route_loop geo dest_port i [] = Inr []"
| "route_loop geo dest_port i (port # ports) =
     (case geo (port_coords port) (port_coords dest_port) of
        Inl e \<Rightarrow> Inl e
      | Inr distance_port_to_dest \<Rightarrow>
          (case route_loop geo dest_port (Suc i) ports of
             Inl e \<Rightarrow> Inl e
           | Inr rest \<Rightarrow>
               Inr (\<lparr>via = name port,
                     total_distance = round2 (distance_from_float port + distance_port_to_dest),
                     distance_to_port = distance_from_float port,
                     is_primary = (i = 0)\<rparr> # rest)))"

text \<open>The checks on the float's frame and the read of its first position (lines 80 to 91).\<close>

definition float_location :: "dataframe \<Rightarrow> failure + point" where
  "float_location float_df =
     (if df_empty float_df then Inl NoFloatData
      else if ''latitude'' \<notin> set (df_columns float_df) \<or> ''longitude'' \<notin> set (df_columns float_df)
        then Inl NoCoordinates
      else
        (case getitem float_df ''latitude'' of
           Inl e \<Rightarrow> Inl (Raised e)
         | Inr lat_series \<Rightarrow>
             if cells lat_series = [] then Inl NoCoordinates
             else
               (case iloc0 lat_series of
                  Inl e \<Rightarrow> Inl (Raised e)
                | Inr float_lat \<Rightarrow>
                    (case getitem float_df ''longitude'' of
                       Inl e \<Rightarrow> Inl (Raised e)
                     | Inr lon_series \<Rightarrow>
                         (case iloc0 lon_series of
                            Inl e \<Rightarrow> Inl (Raised e)
                          | Inr float_lon \<Rightarrow> Inr (float_lat, float_lon))))))"

definition render_map_with_route :: "geodesic \<Rightarrow> dataframe \<Rightarrow> string \<Rightarrow> failure + route_detail list" where
  "render_map_with_route geo float_df dest_name =
     (case float_location float_df of
        Inl f \<Rightarrow> Inl f
      | Inr (float_lat, float_lon) \<Rightarrow>
          (case find_nearest_ports geo float_lat float_lon 4 of
             Inl e \<Rightarrow> Inl (Raised e)
           | Inr nearest_ports \<Rightarrow>
               if nearest_ports = [] then Inl NoNearestPort
               else
                 (case find_destination dest_name of
                    None \<Rightarrow> Inl DestinationNotFound
                  | Some dest_port \<Rightarrow>
                      (case route_loop geo dest_port 0 nearest_ports of
                         Inl e \<Rightarrow> Inl (Raised e)
                       | Inr route_details \<Rightarrow>
                           if length route_details < 4 then Inl (Raised IndexError)
                           else Inr route_details))))"

text \<open>A float at Chennai, the scenario of the specification.\<close>

definition chennai_float :: dataframe where
  "chennai_float =
     \<lparr>nrows = 1,
      frame_series = [\<lparr>label = ''latitude'', dtype = Float64, cells = [PyFloat (Finite 13.0827)]\<rparr>,
              \<lparr>label = ''longitude'', dtype = Float64, cells = [PyFloat (Finite 80.2707)]\<rparr>]\<rparr>"

definition singapore :: port where
  "singapore = \<lparr>name = ''Singapore'', lat = 1.290270, lon = 103.851959\<rparr>"

definition los_angeles :: port where
  "los_angeles = \<lparr>name = ''Los Angeles, USA'', lat = 33.7297, lon = - 118.2625\<rparr>"

text \<open>
  The entries \<open>find_nearest_ports\<close> sorts when the library measures \<open>d p\<close> km to port \<open>p\<close>,
  in catalog order.
\<close>

definition catalog_candidates :: "(port \<Rightarrow> real) \<Rightarrow> candidate list" where
  "catalog_candidates d =
     map (\<lambda>p. \<lparr>name = name p, lat = lat p, lon = lon p, distance_from_float = round2 (d p)\<rparr>)
       GLOBAL_OCEAN_PORTS"

section \<open>Axis and chart selection (frontend\_service.py)\<close>

text \<open>
  \<open>pd.to_numeric\<close> and \<open>pd.to_datetime\<close> belong to pandas. They are parameters of the
  model: \<open>to_numeric\<close> yields the converted column or fails;
  \<open>to_datetime_strict\<close> tells whether \<open>pd.to_datetime(s, errors="raise")\<close> returns without
  an exception; \<open>to_datetime_notna\<close> is \<open>pd.to_datetime(s, errors="coerce").notna()\<close>, one
  flag per cell.
\<close>

record pandas =
  to_numeric :: "series \<Rightarrow> series option"
  to_datetime_strict :: "series \<Rightarrow> bool"
  to_datetime_notna :: "series \<Rightarrow> bool list"

text \<open>\<open>pd.to_numeric(s, errors="ignore")\<close>: the input comes back when the conversion fails.\<close>

definition to_numeric_ignore :: "pandas \<Rightarrow> series \<Rightarrow> series" where
  "to_numeric_ignore lib s = (case to_numeric lib s of None \<Rightarrow> s | Some converted \<Rightarrow> converted)"

subsection \<open>to\_numeric\_df on a store of frames\<close>

text \<open>
  \<open>to_numeric_df\<close> copies its argument and assigns to columns of the copy. Frames live in
  a store addressed by position; \<open>df.copy()\<close> allocates the next address, and
  \<open>df[c] = s\<close> overwrites the column of the frame at one address. Labels being distinct,
  the \<open>i\<close>-th label of the loop names the \<open>i\<close>-th column, and the assigned column takes
  that label.
\<close>

type_synonym store = "dataframe list"

definition df_copy :: "store \<Rightarrow> nat \<Rightarrow> store \<times> nat" where
  "df_copy h a = (h @ [h ! a], length h)"

definition setitem :: "store \<Rightarrow> nat \<Rightarrow> nat \<Rightarrow> series \<Rightarrow> store" where
  "setitem h b i s =
     h[b := (h ! b)\<lparr>frame_series := (frame_series (h ! b))[i := s\<lparr>label := label (frame_series (h ! b) ! i)\<rparr>]\<rparr>]"

text \<open>The body of the loop \<open>for c in df.columns\<close> at the \<open>i\<close>-th label.\<close>

definition to_numeric_step :: "pandas \<Rightarrow> nat \<Rightarrow> store \<Rightarrow> nat \<Rightarrow> store" where
  "to_numeric_step lib b h i =
     (let s = frame_series (h ! b) ! i in
        if dtype s = Object then setitem h b i (to_numeric_ignore lib s) else h)"

definition to_numeric_df_store :: "pandas \<Rightarrow> store \<Rightarrow> nat \<Rightarrow> store \<times> nat" where
  "to_numeric_df_store lib h a =
     (let (h1, b) = df_copy h a in
        (foldl (to_numeric_step lib b) h1 [0 ..< length (frame_series (h1 ! b))], b))"

subsection \<open>The same functions on values\<close>

definition coerce_series :: "pandas \<Rightarrow> series \<Rightarrow> series" where
  "coerce_series lib s =
     (if dtype s = Object then (to_numeric_ignore lib s)\<lparr>label := label s\<rparr> else s)"

definition to_numeric_df :: "pandas \<Rightarrow> dataframe \<Rightarrow> dataframe" where
  "to_numeric_df lib df = df\<lparr>frame_series := map (coerce_series lib) (frame_series df)\<rparr>"

text \<open>\<open>parsed.notna().sum() >= max(1, len(parsed) // 4)\<close>\<close>

definition enough_dates :: "bool list \<Rightarrow> bool" where
  "enough_dates notna = (max 1 (length notna div 4) \<le> length (filter (\<lambda>b. b) notna))"

fun detect_date_loop :: "pandas \<Rightarrow> series list \<Rightarrow> string option" where
  "detect_date_loop lib [] = None"
| "detect_date_loop lib (s # ss) =
     (if substring_of ''date'' (lower (label s)) then
        (if to_datetime_strict lib s then Some (label s)
         else if enough_dates (to_datetime_notna lib s) then Some (label s)
         else detect_date_loop lib ss)
      else detect_date_loop lib ss)"

definition detect_date_column :: "pandas \<Rightarrow> dataframe \<Rightarrow> string option" where
  "detect_date_column lib df = detect_date_loop lib (frame_series df)"

text \<open>\<open>df.select_dtypes(include=["number"]).columns.tolist()\<close>\<close>

fun is_number_dtype :: "np_dtype \<Rightarrow> bool" where
  "is_number_dtype Int64 = True"
| "is_number_dtype Float64 = True"
| "is_number_dtype _ = False"

definition numeric_columns :: "dataframe \<Rightarrow> string list" where
  "numeric_columns df = map label (filter (\<lambda>s. is_number_dtype (dtype s)) (frame_series df))"

text \<open>
  The nested loops \<open>for pref in prefs: for c in cols: if pref in c.lower() and c in
  numeric_cols: return c\<close>.
\<close>

fun first_preferred :: "string list \<Rightarrow> string list \<Rightarrow> string list \<Rightarrow> string option" where
  "first_preferred [] cols numeric_cols = None"
| "first_preferred (pref # prefs) cols numeric_cols =
     (case find (\<lambda>c. substring_of pref (lower c) \<and> c \<in> set numeric_cols) cols of
        Some c \<Rightarrow> Some c
      | None \<Rightarrow> first_preferred prefs cols numeric_cols)"

type_synonym axes = "string option \<times> string option \<times> string"

text \<open>Lines 51 to 58: the time-series rule; \<open>None\<close> when control falls through.\<close>

definition date_rule :: "string option \<Rightarrow> string list \<Rightarrow> string list \<Rightarrow> axes option" where
  "date_rule date_col cols numeric_cols =
     (case date_col of
        None \<Rightarrow> None
      | Some d \<Rightarrow>
          if d = [] then None
          else
            (case first_preferred [''temperature'', ''temp'', ''salinity'', ''pressure''] cols numeric_cols of
               Some c \<Rightarrow> Some (Some d, Some c, ''line'')
             | None \<Rightarrow>
                 (case numeric_cols of
                    [] \<Rightarrow> None
                  | n # _ \<Rightarrow> Some (Some d, Some n, ''line''))))"

text \<open>Lines 61 to 73: the pressure-profile rule.\<close>

definition pressure_rule :: "string list \<Rightarrow> string list \<Rightarrow> axes option" where
  "pressure_rule cols numeric_cols =
     (case find (\<lambda>c. ''pressure'' = lower c \<or> substring_of ''pressure'' (lower c)) cols of
        None \<Rightarrow> None
      | Some pressure_col \<Rightarrow>
          if pressure_col = [] then None
          else
            (case first_preferred [''temperature'', ''salinity'', ''temp''] cols numeric_cols of
               Some c \<Rightarrow> Some (Some c, Some pressure_col, ''line'')
             | None \<Rightarrow>
                 (case filter (\<lambda>c. c \<noteq> pressure_col) numeric_cols of
                    [] \<Rightarrow> None
                  | other # _ \<Rightarrow> Some (Some other, Some pressure_col, ''line''))))"

text \<open>Lines 60 to 80: what \<open>choose_axes\<close> does once the time-series rule has not returned.\<close>

definition profile_or_scatter :: "string list \<Rightarrow> string list \<Rightarrow> axes" where
  "profile_or_scatter cols numeric_cols =
     (case pressure_rule cols numeric_cols of
        Some result \<Rightarrow> result
      | None \<Rightarrow>
          (case numeric_cols of
             n0 # n1 # _ \<Rightarrow> (Some n0, Some n1, ''scatter'')
           | _ \<Rightarrow> (None, None, ''table'')))"

text \<open>Lines 42 to 80, on the coerced frame.\<close>

definition select_axes :: "pandas \<Rightarrow> dataframe \<Rightarrow> axes" where
  "select_axes lib df =
     (let cols = df_columns df; numeric_cols = numeric_columns df in
        if nrows df = 1 \<and> numeric_cols \<noteq> [] then (None, None, ''bar'')
        else
          (case date_rule (detect_date_column lib df) cols numeric_cols of
             Some result \<Rightarrow> result
           | None \<Rightarrow> profile_or_scatter cols numeric_cols))"

definition choose_axes :: "pandas \<Rightarrow> dataframe \<Rightarrow> axes" where
  "choose_axes lib df = select_axes lib (to_numeric_df lib df)"

definition choose_axes_store :: "pandas \<Rightarrow> store \<Rightarrow> nat \<Rightarrow> store \<times> axes" where
  "choose_axes_store lib h a =
     (let (h', b) = to_numeric_df_store lib h a in (h', select_axes lib (h' ! b)))"

subsection \<open>Predicates of the claims\<close>

text \<open>A missing value: \<open>None\<close> or \<open>NaN\<close>.\<close>

fun is_null :: "pyval \<Rightarrow> bool" where
  "is_null PyNone = True"
| "is_null (PyFloat NaN) = True"
| "is_null _ = False"

text \<open>The test \<open>detect_date_column\<close> applies to one column, read off its loop body.\<close>

definition date_like :: "pandas \<Rightarrow> series \<Rightarrow> bool" where
  "date_like lib s =
     (substring_of ''date'' (lower (label s)) \<and>
      (to_datetime_strict lib s \<or> enough_dates (to_datetime_notna lib s)))"

text \<open>
  The test as the specification words it: the name contains "date" and the strict parse
  succeeds or at least a quarter of the non-null entries parse.
\<close>

definition spec_date_like :: "pandas \<Rightarrow> series \<Rightarrow> bool" where
  "spec_date_like lib s =
     (substring_of ''date'' (lower (label s)) \<and>
      (to_datetime_strict lib s \<or>
       length (filter (\<lambda>v. \<not> is_null v) (cells s))
         \<le> 4 * length (filter (\<lambda>b. b) (to_datetime_notna lib s))))"

text \<open>Two tables that agree on column names, column types and row count.\<close>

definition same_shape :: "dataframe \<Rightarrow> dataframe \<Rightarrow> bool" where
  "same_shape df1 df2 =
     (df_columns df1 = df_columns df2 \<and>
      map dtype (frame_series df1) = map dtype (frame_series df2) \<and>
      nrows df1 = nrows df2)"

subsection \<open>A small pandas for running the model\<close>

text \<open>
  An instance of the library interface for evaluating the model on tables: strings of
  decimal digits and numbers convert to float64, and a cell parses as a date when it is a
  number or a string of the shape \<open>dddd-dd-dd\<close>.
\<close>

definition is_digit :: "char \<Rightarrow> bool" where
  "is_digit c = (c \<in> set ''0123456789'')"

definition decimal :: "string \<Rightarrow> nat" where
  "decimal t = foldl (\<lambda>n c. 10 * n + (of_char c - 48)) 0 t"

definition iso_date :: "string \<Rightarrow> bool" where
  "iso_date t =
     (length t = 10 \<and> t ! 4 = CHR ''-'' \<and> t ! 7 = CHR ''-'' \<and>
      list_all is_digit (take 4 t @ take 2 (drop 5 t) @ drop 8 t))"

fun parses_as_date :: "pyval \<Rightarrow> bool" where
  "parses_as_date (PyStr t) = iso_date t"
| "parses_as_date (PyInt _) = True"
| "parses_as_date (NpInt64 _) = True"
| "parses_as_date (PyFloat (Finite _)) = True"
| "parses_as_date _ = False"

fun as_float :: "pyval \<Rightarrow> pyval option" where
  "as_float PyNone = Some (PyFloat NaN)"
| "as_float (PyInt i) = Some (PyFloat (Finite (of_int i)))"
| "as_float (NpInt64 i) = Some (PyFloat (Finite (of_int i)))"
| "as_float (PyFloat x) = Some (PyFloat x)"
| "as_float (PyStr t) =
     (if t \<noteq> [] \<and> list_all is_digit t then Some (PyFloat (Finite (of_nat (decimal t)))) else None)"
| "as_float (PyBool _) = None"

definition sample_to_numeric :: "series \<Rightarrow> series option" where
  "sample_to_numeric s =
     (if list_all (\<lambda>v. as_float v \<noteq> None) (cells s)
      then Some (s\<lparr>dtype := Float64, cells := map (\<lambda>v. the (as_float v)) (cells s)\<rparr>)
      else None)"

definition sample_pandas :: pandas where
  "sample_pandas =
     \<lparr>to_numeric = sample_to_numeric,
      to_datetime_strict = (\<lambda>s. list_all (\<lambda>v. is_null v \<or> parses_as_date v) (cells s)),
      to_datetime_notna = (\<lambda>s. map parses_as_date (cells s))\<rparr>"

subsection \<open>Example tables\<close>

definition float_cells :: "real list \<Rightarrow> pyval list" where
  "float_cells xs = map (\<lambda>x. PyFloat (Finite x)) xs"

definition sparse_dates :: dataframe where
  "sparse_dates =
     \<lparr>nrows = 7,
      frame_series =
        [\<lparr>label = ''date'', dtype = Object,
          cells = [PyStr ''2020-01-01'', PyStr ''unknown'', PyStr ''unknown'', PyStr ''unknown'',
                   PyStr ''unknown'', PyStr ''unknown'', PyStr ''unknown'']\<rparr>,
         \<lparr>label = ''temperature'', dtype = Float64,
          cells = float_cells [20.5, 20.6, 20.7, 20.8, 20.9, 21.0, 21.1]\<rparr>]\<rparr>"

definition dated_table :: dataframe where
  "dated_table =
     \<lparr>nrows = 2,
      frame_series =
        [\<lparr>label = ''date'', dtype = Object, cells = [PyStr ''2020-01-01'', PyStr ''2020-01-02'']\<rparr>,
         \<lparr>label = ''temperature'', dtype = Float64, cells = float_cells [20.5, 21.0]\<rparr>]\<rparr>"

definition undated_table :: dataframe where
  "undated_table =
     \<lparr>nrows = 2,
      frame_series =
        [\<lparr>label = ''date'', dtype = Object, cells = [PyStr ''unknown'', PyStr ''unknown'']\<rparr>,
         \<lparr>label = ''temperature'', dtype = Float64, cells = float_cells [20.5, 21.0]\<rparr>]\<rparr>"

definition single_row :: dataframe where
  "single_row =
     \<lparr>nrows = 1,
      frame_series =
        [\<lparr>label = ''region'', dtype = Object, cells = [PyStr ''equator'']\<rparr>,
         \<lparr>label = ''avg_temperature'', dtype = Float64, cells = float_cells [27.4]\<rparr>]\<rparr>"

definition salinity_profile :: dataframe where
  "salinity_profile =
     \<lparr>nrows = 2,
      frame_series =
        [\<lparr>label = ''pressure'', dtype = Float64, cells = float_cells [5, 10]\<rparr>,
         \<lparr>label = ''salinity'', dtype = Float64, cells = float_cells [35.1, 35.2]\<rparr>]\<rparr>"

definition full_profile :: dataframe where
  "full_profile =
     \<lparr>nrows = 2,
      frame_series =
        [\<lparr>label = ''pressure'', dtype = Float64, cells = float_cells [5, 10]\<rparr>,
         \<lparr>label = ''salinity'', dtype = Float64, cells = float_cells [35.1, 35.2]\<rparr>,
         \<lparr>label = ''temperature'', dtype = Float64, cells = float_cells [20.5, 19.8]\<rparr>]\<rparr>"

definition later_table :: dataframe where
  "later_table =
     \<lparr>nrows = 2,
      frame_series =
        [\<lparr>label = ''date'', dtype = Object, cells = [PyStr ''2021-05-05'', PyStr ''2021-05-06'']\<rparr>,
         \<lparr>label = ''temperature'', dtype = Float64, cells = float_cells [1.5, 2.5]\<rparr>]\<rparr>"

definition surface_sample :: dataframe where
  "surface_sample =
     \<lparr>nrows = 1,
      frame_series =
        [\<lparr>label = ''pressure'', dtype = Float64, cells = float_cells [5]\<rparr>,
         \<lparr>label = ''salinity'', dtype = Float64, cells = float_cells [35.1]\<rparr>]\<rparr>"

section \<open>Facts about strings, rounding and slices\<close>

lemma substring_of_sublist: "substring_of n h \<longleftrightarrow> sublist n h"
  by (induction h) (auto simp: sublist_Cons_right)

lemma round2_error: "\<bar>round2 x - x\<bar> \<le> 1 / 200"
  unfolding round2_def Let_def
  by (auto simp: field_simps abs_if) linarith+

lemma round2_twice_error: "\<bar>round2 (round2 a + b) - (a + b)\<bar> \<le> 1 / 100"
proof -
  have "\<bar>round2 (round2 a + b) - (round2 a + b)\<bar> \<le> 1 / 200"
    by (rule round2_error)
  moreover have "\<bar>round2 a - a\<bar> \<le> 1 / 200"
    by (rule round2_error)
  ultimately show ?thesis by linarith
qed

lemma filter_take_prefix: "prefix (filter P (take n xs)) (filter P xs)"
proof -
  have "filter P xs = filter P (take n xs) @ filter P (drop n xs)"
    by (metis append_take_drop_id filter_append)
  then show ?thesis by (simp add: prefix_def)
qed

lemma slice_to_nonempty: "0 < n \<Longrightarrow> xs \<noteq> [] \<Longrightarrow> slice_to n xs \<noteq> []"
  by (simp add: slice_to_def)

lemma sorted_slice_to: "sorted (map f xs) \<Longrightarrow> sorted (map f (slice_to n xs))"
  by (simp add: slice_to_def take_map [symmetric] del: take_map)

lemma set_slice_to: "set (slice_to n xs) \<subseteq> set xs"
  by (auto simp: slice_to_def dest: in_set_takeD)

lemma prefix_filter_slice_to: "prefix (filter P (slice_to n xs)) (filter P xs)"
  by (simp add: slice_to_def filter_take_prefix)

lemma sorted_hd_min: "sorted (map f xs) \<Longrightarrow> x \<in> set xs \<Longrightarrow> f (hd xs) \<le> f x"
  by (cases xs) auto

lemma finite_number_is_number: "is_finite_number v \<Longrightarrow> isinstance_int_float v"
  by (cases v) simp_all

section \<open>The nearest-port search\<close>

lemma catalog_length: "length GLOBAL_OCEAN_PORTS = 15"
  by (simp add: GLOBAL_OCEAN_PORTS_def)

lemma port_distances_all2:
  "port_distances geo fc ps = Inr cs \<Longrightarrow>
   list_all2 (\<lambda>p c. name c = name p \<and> lat c = lat p \<and> lon c = lon p \<and>
      (\<exists>d. geo fc (port_coords p) = Inr d \<and> distance_from_float c = round2 d)) ps cs"
  by (induction ps arbitrary: cs) (auto split: sum.splits)

lemma port_distances_total:
  "\<forall>p \<in> set ps. geo fc (port_coords p) = Inr (d p) \<Longrightarrow>
   port_distances geo fc ps =
     Inr (map (\<lambda>p. \<lparr>name = name p, lat = lat p, lon = lon p, distance_from_float = round2 (d p)\<rparr>) ps)"
  by (induction ps) auto

lemma port_distances_length: "port_distances geo fc ps = Inr cs \<Longrightarrow> length cs = length ps"
  by (drule port_distances_all2) (simp add: list_all2_lengthD)

lemma find_nearest_ports_origin:
  assumes "find_nearest_ports geo float_lat float_lon n = Inr rs" and "c \<in> set rs"
  shows "\<exists>d. geo (float_lat, float_lon) (port_coords c) = Inr d \<and> distance_from_float c = round2 d"
proof -
  from assms obtain cs where
    pd: "port_distances geo (float_lat, float_lon) GLOBAL_OCEAN_PORTS = Inr cs"
    and rs: "rs = slice_to n (sort_key distance_from_float cs)"
    by (auto simp: find_nearest_ports_def split: if_splits sum.splits)
  from rs assms(2) have "c \<in> set cs"
    using set_slice_to [of n "sort_key distance_from_float cs"] by auto
  then obtain j where j: "j < length cs" "cs ! j = c"
    by (auto simp: in_set_conv_nth)
  from port_distances_all2 [OF pd] j show ?thesis
    by (auto simp: list_all2_conv_all_nth port_coords_def)
qed

lemma nearest_ports_ascending:
  assumes "find_nearest_ports geo float_lat float_lon n = Inr rs"
  shows "sorted (map distance_from_float rs)"
  using assms
  by (auto simp: find_nearest_ports_def sorted_slice_to split: if_splits sum.splits)

lemma chennai_nearest:
  "find_nearest_ports grid_km (PyFloat (Finite 13.0827)) (PyFloat (Finite 80.2707)) 4 =
     Inr [\<lparr>name = ''Chennai, India'', lat = 13.0827, lon = 80.2707, distance_from_float = 0\<rparr>,
          \<lparr>name = ''Colombo, Sri Lanka'', lat = 6.9271, lon = 79.8612, distance_from_float = 728.73\<rparr>,
          \<lparr>name = ''Chittagong, Bangladesh'', lat = 22.3475, lon = 91.8123, distance_from_float = 2309.51\<rparr>,
          \<lparr>name = ''Singapore'', lat = 1.290270, lon = 103.851959, distance_from_float = 3926.48\<rparr>]"
  by (simp add: find_nearest_ports_def GLOBAL_OCEAN_PORTS_def grid_km_def port_coords_def
      round2_def Let_def slice_to_def)

text \<open>
  Claim C1, as the code has it: the guard of \<open>find_nearest_ports\<close> tests the class of the
  coordinates, not their finiteness. For a positive \<open>num_ports\<close> the function returns the
  empty list exactly when the latitude or the longitude is not an \<open>int\<close> or a \<open>float\<close>; a
  NaN is a \<open>float\<close> and passes the guard.
\<close>

theorem find_nearest_ports_empty_iff:
  assumes "0 < num_ports"
  shows "find_nearest_ports geo float_lat float_lon num_ports = Inr [] \<longleftrightarrow>
         \<not> isinstance_int_float float_lat \<or> \<not> isinstance_int_float float_lon"
proof (cases "\<not> isinstance_int_float float_lat \<or> \<not> isinstance_int_float float_lon")
  case True
  then show ?thesis by (auto simp: find_nearest_ports_def)
next
  case False
  show ?thesis
  proof (cases "port_distances geo (float_lat, float_lon) GLOBAL_OCEAN_PORTS")
    case (Inl e)
    with False show ?thesis by (simp add: find_nearest_ports_def)
  next
    case (Inr distances)
    then have "length distances = 15"
      by (simp add: port_distances_length catalog_length)
    then have "length (sort_key distance_from_float distances) = 15"
      by simp
    then have "sort_key distance_from_float distances \<noteq> []"
      by (cases "sort_key distance_from_float distances") simp_all
    then have "slice_to num_ports (sort_key distance_from_float distances) \<noteq> []"
      using assms slice_to_nonempty by blast
    with False Inr show ?thesis by (simp add: find_nearest_ports_def)
  qed
qed

theorem find_nearest_ports_empty_iff_witness:
  "find_nearest_ports grid_km (PyStr ''13.08'') (PyFloat (Finite 80.2707)) 4 = Inr [] \<and>
   find_nearest_ports grid_km (PyFloat NaN) (PyInt 10) 4 \<noteq> Inr []"
  using find_nearest_ports_empty_iff [of 4 grid_km "PyStr ''13.08''" "PyFloat (Finite 80.2707)"]
    find_nearest_ports_empty_iff [of 4 grid_km "PyFloat NaN" "PyInt 10"]
  by simp

text \<open>
  Claim C1 as stated fails: NaN is not a finite number, yet whatever the distance library
  does, \<open>find_nearest_ports(float("nan"), 10)\<close> does not return the empty list (it raises
  with the library or returns four entries).
\<close>

theorem nan_latitude_counterexample:
  "\<not> is_finite_number (PyFloat NaN) \<and>
   \<not> (\<exists>geo. find_nearest_ports geo (PyFloat NaN) (PyInt 10) 4 = Inr [])"
proof -
  have "find_nearest_ports geo (PyFloat NaN) (PyInt 10) 4 \<noteq> Inr []" for geo
  proof (cases "port_distances geo (PyFloat NaN, PyInt 10) GLOBAL_OCEAN_PORTS")
    case (Inl e)
    then show ?thesis by (simp add: find_nearest_ports_def)
  next
    case (Inr distances)
    then have "length (sort_key distance_from_float distances) = 15"
      by (simp add: port_distances_length catalog_length)
    then have "take 4 (sort_key distance_from_float distances) \<noteq> []"
      by (cases "sort_key distance_from_float distances") simp_all
    with Inr show ?thesis by (simp add: find_nearest_ports_def slice_to_def)
  qed
  then show ?thesis by simp
qed

text \<open>
  Claim C5, as the code has it: for finite numeric coordinates for which the distance
  library returns a distance to every catalog port, \<open>find_nearest_ports(lat, lon, 4)\<close>
  returns four catalog entries sorted ascending by their distance from the float (the
  library's distance rounded to two decimals, which is the distance an entry carries);
  the first entry's distance is at most every other entry's; and entries of equal
  distance keep their catalog order. The function does not check the range of the
  coordinates: where the library raises, the call raises.
\<close>

theorem find_nearest_ports_sorted:
  assumes num: "is_finite_number float_lat" "is_finite_number float_lon"
    and geo: "\<forall>p \<in> set GLOBAL_OCEAN_PORTS. geo (float_lat, float_lon) (port_coords p) = Inr (d p)"
  shows "\<exists>rs. find_nearest_ports geo float_lat float_lon 4 = Inr rs \<and>
           length rs = 4 \<and>
           set rs \<subseteq> set (catalog_candidates d) \<and>
           sorted (map distance_from_float rs) \<and>
           (\<forall>r \<in> set rs. distance_from_float (hd rs) \<le> distance_from_float r) \<and>
           (\<forall>k. prefix (filter (\<lambda>c. distance_from_float c = k) rs)
                       (filter (\<lambda>c. distance_from_float c = k) (catalog_candidates d)))"
proof -
  let ?cs = "catalog_candidates d"
  let ?rs = "slice_to 4 (sort_key distance_from_float ?cs)"
  have pd: "port_distances geo (float_lat, float_lon) GLOBAL_OCEAN_PORTS = Inr ?cs"
    unfolding catalog_candidates_def using geo by (rule port_distances_total)
  have res: "find_nearest_ports geo float_lat float_lon 4 = Inr ?rs"
    using num pd by (simp add: find_nearest_ports_def finite_number_is_number)
  have len: "length ?rs = 4"
    by (simp add: slice_to_def catalog_candidates_def catalog_length)
  have sub: "set ?rs \<subseteq> set ?cs"
    using set_slice_to [of 4 "sort_key distance_from_float ?cs"] by simp
  have srt: "sorted (map distance_from_float ?rs)"
    by (rule sorted_slice_to) (rule sorted_sort_key)
  have hd_min: "\<forall>r \<in> set ?rs. distance_from_float (hd ?rs) \<le> distance_from_float r"
    using sorted_hd_min [OF srt] by simp
  have stable: "prefix (filter (\<lambda>c. distance_from_float c = k) ?rs)
                       (filter (\<lambda>c. distance_from_float c = k) ?cs)" for k
    using prefix_filter_slice_to [of "\<lambda>c. distance_from_float c = k" 4 "sort_key distance_from_float ?cs"]
    by (simp add: sort_key_stable)
  show ?thesis
    using res len sub srt hd_min stable by blast
qed

theorem find_nearest_ports_sorted_witness:
  "\<exists>rs. find_nearest_ports grid_km (PyFloat (Finite 13.0827)) (PyFloat (Finite 80.2707)) 4 = Inr rs \<and>
     map name rs = [''Chennai, India'', ''Colombo, Sri Lanka'', ''Chittagong, Bangladesh'', ''Singapore''] \<and>
     map distance_from_float rs = [0, 728.73, 2309.51, 3926.48] \<and>
     sorted (map distance_from_float rs)"
proof -
  let ?d = "\<lambda>p. 111 * (\<bar>13.0827 - lat p\<bar> + \<bar>80.2707 - lon p\<bar>)"
  have "is_finite_number (PyFloat (Finite 13.0827))" "is_finite_number (PyFloat (Finite 80.2707))"
    by simp_all
  moreover have "\<forall>p \<in> set GLOBAL_OCEAN_PORTS.
      grid_km (PyFloat (Finite 13.0827), PyFloat (Finite 80.2707)) (port_coords p) = Inr (?d p)"
    by (simp add: GLOBAL_OCEAN_PORTS_def grid_km_def port_coords_def)
  ultimately obtain rs where
    rs: "find_nearest_ports grid_km (PyFloat (Finite 13.0827)) (PyFloat (Finite 80.2707)) 4 = Inr rs"
    and srt: "sorted (map distance_from_float rs)"
    using find_nearest_ports_sorted
      [of "PyFloat (Finite 13.0827)" "PyFloat (Finite 80.2707)" grid_km ?d]
    by blast
  from rs have names: "map name rs =
      [''Chennai, India'', ''Colombo, Sri Lanka'', ''Chittagong, Bangladesh'', ''Singapore'']"
    and dists: "map distance_from_float rs = [0, 728.73, 2309.51, 3926.48]"
    unfolding chennai_nearest by auto
  show ?thesis
    by (rule exI [of _ rs]) (intro conjI rs names dists srt)
qed

text \<open>
  Claim C5 as stated fails: 91 and 0 are finite numbers, yet with a library that refuses a
  latitude outside \<open>[-90, 90]\<close> the call \<open>find_nearest_ports(91, 0, 4)\<close> raises and returns
  no list.
\<close>

theorem latitude_out_of_range_counterexample:
  "is_finite_number (PyInt 91) \<and> is_finite_number (PyInt 0) \<and>
   find_nearest_ports grid_km (PyInt 91) (PyInt 0) 4 = Inl ValueError"
  by (simp add: find_nearest_ports_def GLOBAL_OCEAN_PORTS_def grid_km_def port_coords_def)

section \<open>Route assembly\<close>

lemma route_loop_via:
  "route_loop geo dest i cs = Inr ds \<Longrightarrow> map via ds = map name cs"
  by (induction cs arbitrary: ds i) (auto split: sum.splits)

lemma route_loop_distance_to_port:
  "route_loop geo dest i cs = Inr ds \<Longrightarrow> map distance_to_port ds = map distance_from_float cs"
  by (induction cs arbitrary: ds i) (auto split: sum.splits)

lemma route_loop_later_not_primary:
  "route_loop geo dest (Suc i) cs = Inr ds \<Longrightarrow> filter is_primary ds = []"
  by (induction cs arbitrary: ds i) (auto split: sum.splits)

lemma route_loop_one_primary:
  "route_loop geo dest 0 (c # cs) = Inr ds \<Longrightarrow>
   \<exists>r rs. ds = r # rs \<and> is_primary r \<and> filter is_primary rs = []"
  by (auto split: sum.splits dest: route_loop_later_not_primary)

lemma float_location_failures:
  "float_location float_df = Inl f \<Longrightarrow> f \<noteq> DestinationNotFound \<and> f \<noteq> NoNearestPort"
  by (auto simp: float_location_def split: if_splits sum.splits)

lemma render_Inr:
  assumes "render_map_with_route geo float_df dest_name = Inr details"
  obtains float_lat float_lon nearest dest_port where
    "float_location float_df = Inr (float_lat, float_lon)"
    "find_nearest_ports geo float_lat float_lon 4 = Inr nearest"
    "nearest \<noteq> []"
    "find_destination dest_name = Some dest_port"
    "route_loop geo dest_port 0 nearest = Inr details"
    "4 \<le> length details"
  using assms unfolding render_map_with_route_def
  by (auto split: sum.splits prod.splits if_splits option.splits)

lemma find_first:
  "find P xs = Some x \<longleftrightarrow>
   (\<exists>before after. xs = before @ x # after \<and> P x \<and> (\<forall>y \<in> set before. \<not> P y))"
proof (induction xs)
  case Nil
  then show ?case by simp
next
  case (Cons a xs)
  show ?case
  proof (cases "P a")
    case True
    have "(\<exists>before after. a # xs = before @ x # after \<and> P x \<and> (\<forall>y \<in> set before. \<not> P y))
        \<longleftrightarrow> a = x"
    proof
      assume "\<exists>before after. a # xs = before @ x # after \<and> P x \<and> (\<forall>y \<in> set before. \<not> P y)"
      then obtain before after where "a # xs = before @ x # after"
        "\<forall>y \<in> set before. \<not> P y" by blast
      with True show "a = x"
        by (cases before) auto
    next
      assume "a = x"
      with True have "a # xs = [] @ x # xs \<and> P x \<and> (\<forall>y \<in> set []. \<not> P y)" by simp
      then show "\<exists>before after. a # xs = before @ x # after \<and> P x \<and>
          (\<forall>y \<in> set before. \<not> P y)" by blast
    qed
    with True show ?thesis by simp
  next
    case False
    have "(\<exists>before after. a # xs = before @ x # after \<and> P x \<and> (\<forall>y \<in> set before. \<not> P y))
        \<longleftrightarrow> (\<exists>before after. xs = before @ x # after \<and> P x \<and> (\<forall>y \<in> set before. \<not> P y))"
    proof
      assume "\<exists>before after. a # xs = before @ x # after \<and> P x \<and> (\<forall>y \<in> set before. \<not> P y)"
      then obtain before after where *: "a # xs = before @ x # after" "P x"
        "\<forall>y \<in> set before. \<not> P y" by blast
      with False obtain before' where "before = a # before'"
        by (cases before) auto
      with * have "xs = before' @ x # after \<and> P x \<and> (\<forall>y \<in> set before'. \<not> P y)" by simp
      then show "\<exists>before after. xs = before @ x # after \<and> P x \<and> (\<forall>y \<in> set before. \<not> P y)"
        by blast
    next
      assume "\<exists>before after. xs = before @ x # after \<and> P x \<and> (\<forall>y \<in> set before. \<not> P y)"
      then obtain before after where *: "xs = before @ x # after" "P x"
        "\<forall>y \<in> set before. \<not> P y" by blast
      with False have "a # xs = (a # before) @ x # after \<and> P x \<and>
          (\<forall>y \<in> set (a # before). \<not> P y)" by simp
      then show "\<exists>before after. a # xs = before @ x # after \<and> P x \<and>
          (\<forall>y \<in> set before. \<not> P y)" by blast
    qed
    with False Cons.IH show ?thesis by simp
  qed
qed

lemma find_destination_usa: "find_destination ''usa'' = Some los_angeles"
  by (simp add: find_destination_def GLOBAL_OCEAN_PORTS_def los_angeles_def lower_def lower_char_def)

lemma find_destination_cases:
  "find_destination ''singapore'' = Some singapore"
  "find_destination ''SINGAPORE'' = Some singapore"
  "find_destination ''Singapore'' = Some singapore"
  "find_destination ''Singapore, '' = None"
  by (simp_all add: find_destination_def GLOBAL_OCEAN_PORTS_def singapore_def lower_def lower_char_def)

lemma find_destination_lagos:
  "find_destination ''lagos'' = Some \<lparr>name = ''Lagos, Nigeria'', lat = 6.4531, lon = 3.3958\<rparr>"
  by (simp add: find_destination_def GLOBAL_OCEAN_PORTS_def lower_def lower_char_def)

lemma chennai_location:
  "float_location chennai_float = Inr (PyFloat (Finite 13.0827), PyFloat (Finite 80.2707))"
  by (simp add: float_location_def chennai_float_def df_empty_def df_columns_def getitem_def iloc0_def)

lemma chennai_to_singapore:
  "render_map_with_route grid_km chennai_float ''Singapore'' =
     Inr [\<lparr>via = ''Chennai, India'', total_distance = 3926.48, distance_to_port = 0, is_primary = True\<rparr>,
          \<lparr>via = ''Colombo, Sri Lanka'', total_distance = 4017.39, distance_to_port = 728.73, is_primary = False\<rparr>,
          \<lparr>via = ''Chittagong, Bangladesh'', total_distance = 5983.26, distance_to_port = 2309.51, is_primary = False\<rparr>,
          \<lparr>via = ''Singapore'', total_distance = 3926.48, distance_to_port = 3926.48, is_primary = False\<rparr>]"
  unfolding render_map_with_route_def chennai_location
  by (simp only: sum.case prod.case chennai_nearest find_destination_cases option.case)
    (simp add: singapore_def grid_km_def port_coords_def round2_def Let_def)

lemma chennai_to_lagos:
  "render_map_with_route grid_km chennai_float ''lagos'' =
     Inr [\<lparr>via = ''Chennai, India'', total_distance = 9269, distance_to_port = 0, is_primary = True\<rparr>,
          \<lparr>via = ''Colombo, Sri Lanka'', total_distance = 9269, distance_to_port = 728.73, is_primary = False\<rparr>,
          \<lparr>via = ''Chittagong, Bangladesh'', total_distance = 13888.02, distance_to_port = 2309.51, is_primary = False\<rparr>,
          \<lparr>via = ''Singapore'', total_distance = 15650.19, distance_to_port = 3926.48, is_primary = False\<rparr>]"
  unfolding render_map_with_route_def chennai_location
  by (simp only: sum.case prod.case chennai_nearest find_destination_lagos option.case)
    (simp add: grid_km_def port_coords_def round2_def Let_def)

lemma chennai_not_found:
  "render_map_with_route grid_km chennai_float ''Singapore, '' = Inl DestinationNotFound"
  unfolding render_map_with_route_def chennai_location
  by (simp only: sum.case prod.case chennai_nearest find_destination_cases option.case) simp

text \<open>
  Claim C2, as the code has it: the destination resolves to the first catalog entry whose
  lower-cased name contains the lower-cased destination string: the lookup returns an
  entry exactly when that entry matches and no entry before it in the catalog does
  (\<open>"usa"\<close> resolves to Los Angeles, which precedes New York). \<open>"singapore"\<close> and
  \<open>"SINGAPORE"\<close> resolve to the entry \<open>Singapore\<close>; \<open>"Singapore, "\<close> is not contained in any
  port name and does not resolve. Strings equal up to case resolve alike, the lookup
  finds nothing exactly when no catalog name contains the string, and
  \<open>render_map_with_route\<close> stops with "destination not found" exactly when the float has a
  position, a nearest port exists and the lookup finds nothing.
\<close>

theorem destination_lookup:
  "find_destination ''singapore'' = Some singapore \<and>
   find_destination ''SINGAPORE'' = Some singapore \<and>
   find_destination ''Singapore, '' = None \<and>
   (lower d = lower d' \<longrightarrow> find_destination d = find_destination d') \<and>
   (find_destination d = None \<longleftrightarrow>
      (\<forall>p \<in> set GLOBAL_OCEAN_PORTS. \<not> sublist (lower d) (lower (name p)))) \<and>
   (\<forall>p. find_destination d = Some p \<longrightarrow>
      p \<in> set GLOBAL_OCEAN_PORTS \<and> sublist (lower d) (lower (name p))) \<and>
   (render_map_with_route geo float_df d = Inl DestinationNotFound \<longleftrightarrow>
      (\<exists>float_lat float_lon nearest.
         float_location float_df = Inr (float_lat, float_lon) \<and>
         find_nearest_ports geo float_lat float_lon 4 = Inr nearest \<and> nearest \<noteq> [] \<and>
         find_destination d = None)) \<and>
   (\<forall>p. find_destination d = Some p \<longleftrightarrow>
      (\<exists>before after. GLOBAL_OCEAN_PORTS = before @ p # after \<and>
         sublist (lower d) (lower (name p)) \<and>
         (\<forall>q \<in> set before. \<not> sublist (lower d) (lower (name q))))) \<and>
   find_destination ''usa'' = Some los_angeles"
proof -
  have same: "lower d = lower d' \<longrightarrow> find_destination d = find_destination d'"
    by (simp add: find_destination_def)
  have none: "find_destination d = None \<longleftrightarrow>
      (\<forall>p \<in> set GLOBAL_OCEAN_PORTS. \<not> sublist (lower d) (lower (name p)))"
    by (auto simp: find_destination_def find_None_iff substring_of_sublist)
  have some: "\<forall>p. find_destination d = Some p \<longrightarrow>
      p \<in> set GLOBAL_OCEAN_PORTS \<and> sublist (lower d) (lower (name p))"
    by (auto simp: find_destination_def find_Some_iff substring_of_sublist [symmetric])
  have notice: "render_map_with_route geo float_df d = Inl DestinationNotFound \<longleftrightarrow>
      (\<exists>float_lat float_lon nearest.
         float_location float_df = Inr (float_lat, float_lon) \<and>
         find_nearest_ports geo float_lat float_lon 4 = Inr nearest \<and> nearest \<noteq> [] \<and>
         find_destination d = None)"
    unfolding render_map_with_route_def
    by (auto split: sum.splits prod.splits option.splits dest: float_location_failures)
  have earliest: "\<forall>p. find_destination d = Some p \<longleftrightarrow>
      (\<exists>before after. GLOBAL_OCEAN_PORTS = before @ p # after \<and>
         sublist (lower d) (lower (name p)) \<and>
         (\<forall>q \<in> set before. \<not> sublist (lower d) (lower (name q))))"
    unfolding find_destination_def find_first substring_of_sublist by simp
  show ?thesis
    by (intro conjI find_destination_cases(1,2,4) same none some notice earliest
        find_destination_usa)
qed

theorem destination_lookup_witness:
  "find_destination ''sinGApore'' = find_destination ''SINGAPORE'' \<and>
   find_destination ''Singapore'' = Some singapore \<and>
   singapore \<in> set GLOBAL_OCEAN_PORTS \<and>
   sublist (lower ''Singapore'') (lower (name singapore)) \<and>
   find_destination ''Singapore, '' = None \<and>
   render_map_with_route grid_km chennai_float ''Singapore, '' = Inl DestinationNotFound \<and>
   find_destination ''usa'' = Some los_angeles \<and>
   (\<exists>before after. GLOBAL_OCEAN_PORTS = before @ los_angeles # after \<and>
      list_all (\<lambda>q. \<not> sublist (lower ''usa'') (lower (name q))) before)"
proof -
  note a = destination_lookup [of "''sinGApore''" "''SINGAPORE''" grid_km chennai_float]
  note b = destination_lookup [of "''Singapore''" "''Singapore''" grid_km chennai_float]
  note c = destination_lookup [of "''Singapore, ''" "''Singapore, ''" grid_km chennai_float]
  note u = destination_lookup [of "''usa''" "''usa''" grid_km chennai_float]
  have "lower ''sinGApore'' = lower ''SINGAPORE''"
    by (simp add: lower_def lower_char_def)
  with a have w1: "find_destination ''sinGApore'' = find_destination ''SINGAPORE''"
    by blast
  from b find_destination_cases(3) have w2: "singapore \<in> set GLOBAL_OCEAN_PORTS"
    and w3: "sublist (lower ''Singapore'') (lower (name singapore))"
    by blast+
  from c have w4: "find_destination ''Singapore, '' = None"
    by blast
  from u have "find_destination ''usa'' = Some los_angeles"
    and "\<forall>p. find_destination ''usa'' = Some p \<longleftrightarrow>
      (\<exists>before after. GLOBAL_OCEAN_PORTS = before @ p # after \<and>
         sublist (lower ''usa'') (lower (name p)) \<and>
         (\<forall>q \<in> set before. \<not> sublist (lower ''usa'') (lower (name q))))"
    by blast+
  then have w5: "find_destination ''usa'' = Some los_angeles"
    and w6: "\<exists>before after. GLOBAL_OCEAN_PORTS = before @ los_angeles # after \<and>
      list_all (\<lambda>q. \<not> sublist (lower ''usa'') (lower (name q))) before"
    by (auto simp: list_all_iff)
  show ?thesis
    by (intro conjI w1 find_destination_cases(3) w2 w3 w4 chennai_not_found w5 w6)
qed

text \<open>
  Claim C2 as stated fails on the third string: with the catalog's entry \<open>Singapore\<close>, a
  destination \<open>"Singapore, "\<close> (trailing content) resolves to no entry, and the route
  assembly stops with "destination not found"; the bare name does resolve.
\<close>

theorem trailing_content_counterexample:
  "find_destination ''Singapore, '' = None \<and>
   render_map_with_route grid_km chennai_float ''Singapore, '' = Inl DestinationNotFound \<and>
   find_destination ''Singapore'' = Some singapore"
  by (simp add: find_destination_cases chennai_not_found)

text \<open>
  Claim C6, as the code has it: the primary entry's \<open>total_distance\<close> is the sum of the
  two great-circle distances after rounding, not the exact sum. With \<open>d1\<close> the distance
  from the float to the first-ranked port and \<open>d2\<close> the distance from that port to the
  destination, each asked of the library independently, the reported value is
  \<open>round(round(d1, 2) + d2, 2)\<close>, within 0.01 km of \<open>d1 + d2\<close>.
\<close>

theorem primary_total_distance:
  assumes "render_map_with_route geo float_df dest_name = Inr details"
  shows "\<exists>float_lat float_lon dest_port primary alternates d1 d2.
           float_location float_df = Inr (float_lat, float_lon) \<and>
           find_destination dest_name = Some dest_port \<and>
           find_nearest_ports geo float_lat float_lon 4 = Inr (primary # alternates) \<and>
           geo (float_lat, float_lon) (port_coords primary) = Inr d1 \<and>
           geo (port_coords primary) (port_coords dest_port) = Inr d2 \<and>
           via (hd details) = name primary \<and>
           is_primary (hd details) \<and>
           distance_to_port (hd details) = round2 d1 \<and>
           total_distance (hd details) = round2 (round2 d1 + d2) \<and>
           \<bar>total_distance (hd details) - (d1 + d2)\<bar> \<le> 1 / 100"
proof -
  from assms obtain float_lat float_lon nearest dest_port where
    loc: "float_location float_df = Inr (float_lat, float_lon)"
    and near: "find_nearest_ports geo float_lat float_lon 4 = Inr nearest"
    and ne: "nearest \<noteq> []"
    and dest: "find_destination dest_name = Some dest_port"
    and loop: "route_loop geo dest_port 0 nearest = Inr details"
    by (rule render_Inr)
  from ne obtain primary alternates where nearest: "nearest = primary # alternates"
    by (cases nearest) auto
  from find_nearest_ports_origin [OF near, of primary] nearest obtain d1 where
    d1: "geo (float_lat, float_lon) (port_coords primary) = Inr d1"
      "distance_from_float primary = round2 d1"
    by auto
  from loop nearest obtain d2 rest where
    d2: "geo (port_coords primary) (port_coords dest_port) = Inr d2"
    and details: "details = \<lparr>via = name primary,
        total_distance = round2 (distance_from_float primary + d2),
        distance_to_port = distance_from_float primary, is_primary = True\<rparr> # rest"
    by (auto split: sum.splits)
  have total: "total_distance (hd details) = round2 (round2 d1 + d2)"
    using details d1(2) by simp
  have "\<bar>total_distance (hd details) - (d1 + d2)\<bar> \<le> 1 / 100"
    unfolding total by (rule round2_twice_error)
  with loc dest near nearest d1 d2 details total show ?thesis
    by auto
qed

theorem primary_total_distance_witness:
  "\<exists>d1 d2. total_distance (hd (projr (render_map_with_route grid_km chennai_float ''Singapore''))) =
       round2 (round2 d1 + d2) \<and>
     \<bar>total_distance (hd (projr (render_map_with_route grid_km chennai_float ''Singapore''))) - (d1 + d2)\<bar>
       \<le> 1 / 100"
proof -
  from primary_total_distance [OF chennai_to_singapore] obtain d1 d2 where
    "total_distance (hd (projr (render_map_with_route grid_km chennai_float ''Singapore''))) =
       round2 (round2 d1 + d2)"
    "\<bar>total_distance (hd (projr (render_map_with_route grid_km chennai_float ''Singapore''))) - (d1 + d2)\<bar>
       \<le> 1 / 100"
    unfolding chennai_to_singapore sum.sel by blast
  then show ?thesis by blast
qed

text \<open>
  Claim C6 as stated fails: for a float at Chennai bound for Singapore the first-ranked
  port is Chennai, at distance 0; the distance from Chennai to Singapore measures
  3926.479479 km on the grid, and the reported total is 3926.48, not the exact sum.
\<close>

theorem exact_sum_counterexample:
  "grid_km (PyFloat (Finite 13.0827), PyFloat (Finite 80.2707))
     (PyFloat (Finite 13.0827), PyFloat (Finite 80.2707)) = Inr 0 \<and>
   grid_km (PyFloat (Finite 13.0827), PyFloat (Finite 80.2707)) (port_coords singapore) =
     Inr 3926.479479 \<and>
   map (\<lambda>r. (via r, is_primary r, total_distance r))
     (take 1 (projr (render_map_with_route grid_km chennai_float ''Singapore''))) =
     [(''Chennai, India'', True, 3926.48)] \<and>
   (3926.48 :: real) \<noteq> 0 + 3926.479479"
  unfolding chennai_to_singapore
  by (simp add: grid_km_def port_coords_def singapore_def)

text \<open>
  Claim C7: a list of route details that \<open>render_map_with_route\<close> produces is not empty,
  has exactly one primary entry, which is its first, and is ranked by proximity to the
  float: its ports and distances are those of \<open>find_nearest_ports\<close> in the same order,
  ascending by distance from the float, and do not depend on the destination, so the
  order is not one by total distance.
\<close>

theorem route_ranking:
  assumes "render_map_with_route geo float_df dest_name = Inr details"
  shows "details \<noteq> [] \<and>
         length (filter is_primary details) = 1 \<and>
         is_primary (hd details) \<and>
         sorted (map distance_to_port details) \<and>
         (\<forall>r \<in> set details. distance_to_port (hd details) \<le> distance_to_port r) \<and>
         (\<exists>float_lat float_lon nearest.
            float_location float_df = Inr (float_lat, float_lon) \<and>
            find_nearest_ports geo float_lat float_lon 4 = Inr nearest \<and>
            map via details = map name nearest \<and>
            map distance_to_port details = map distance_from_float nearest) \<and>
         (\<forall>other details'.
            render_map_with_route geo float_df other = Inr details' \<longrightarrow>
              map via details' = map via details \<and>
              map distance_to_port details' = map distance_to_port details)"
proof -
  from assms obtain float_lat float_lon nearest dest_port where
    loc: "float_location float_df = Inr (float_lat, float_lon)"
    and near: "find_nearest_ports geo float_lat float_lon 4 = Inr nearest"
    and ne: "nearest \<noteq> []"
    and loop: "route_loop geo dest_port 0 nearest = Inr details"
    by (rule render_Inr)
  from ne obtain c cs where nearest: "nearest = c # cs"
    by (cases nearest) auto
  from route_loop_one_primary [OF loop [unfolded nearest]] obtain r rs where
    details: "details = r # rs" "is_primary r" "filter is_primary rs = []"
    by blast
  have vias: "map via details = map name nearest"
    using loop by (rule route_loop_via)
  have dists: "map distance_to_port details = map distance_from_float nearest"
    using loop by (rule route_loop_distance_to_port)
  have srt: "sorted (map distance_to_port details)"
    unfolding dists using near by (rule nearest_ports_ascending)
  have hd_min: "\<forall>r \<in> set details. distance_to_port (hd details) \<le> distance_to_port r"
    using sorted_hd_min [OF srt] by simp
  have other: "map via details' = map via details \<and>
      map distance_to_port details' = map distance_to_port details"
    if "render_map_with_route geo float_df other = Inr details'" for other details'
  proof -
    from that obtain float_lat' float_lon' nearest' dest_port' where
      loc': "float_location float_df = Inr (float_lat', float_lon')"
      and near': "find_nearest_ports geo float_lat' float_lon' 4 = Inr nearest'"
      and loop': "route_loop geo dest_port' 0 nearest' = Inr details'"
      by (rule render_Inr)
    from loc loc' near near' have "nearest' = nearest" by simp
    with loop' vias dists show ?thesis
      by (simp add: route_loop_via route_loop_distance_to_port)
  qed
  from details have "details \<noteq> []" "length (filter is_primary details) = 1" "is_primary (hd details)"
    by simp_all
  with srt hd_min loc near vias dists other show ?thesis
    by blast
qed

theorem route_ranking_witness:
  "length (filter is_primary (projr (render_map_with_route grid_km chennai_float ''Singapore''))) = 1 \<and>
   is_primary (hd (projr (render_map_with_route grid_km chennai_float ''Singapore''))) \<and>
   sorted (map distance_to_port (projr (render_map_with_route grid_km chennai_float ''Singapore''))) \<and>
   map total_distance (projr (render_map_with_route grid_km chennai_float ''Singapore'')) =
     [3926.48, 4017.39, 5983.26, 3926.48] \<and>
   map via (projr (render_map_with_route grid_km chennai_float ''lagos'')) =
     map via (projr (render_map_with_route grid_km chennai_float ''Singapore''))"
proof -
  have "map total_distance (projr (render_map_with_route grid_km chennai_float ''Singapore'')) =
      [3926.48, 4017.39, 5983.26, 3926.48]"
    unfolding chennai_to_singapore by simp
  moreover have "render_map_with_route grid_km chennai_float ''lagos'' =
      Inr (projr (render_map_with_route grid_km chennai_float ''lagos''))"
    unfolding chennai_to_lagos by simp
  moreover have "render_map_with_route grid_km chennai_float ''Singapore'' =
      Inr (projr (render_map_with_route grid_km chennai_float ''Singapore''))"
    unfolding chennai_to_singapore by simp
  ultimately show ?thesis
    using route_ranking [of grid_km chennai_float "''Singapore''"
        "projr (render_map_with_route grid_km chennai_float ''Singapore'')"]
    by blast
qed

section \<open>Coercion of a frame\<close>

lemma label_coerce_series [simp]: "label (coerce_series lib s) = label s"
  by (simp add: coerce_series_def)

lemma df_columns_to_numeric_df [simp]: "df_columns (to_numeric_df lib df) = df_columns df"
  by (simp add: df_columns_def to_numeric_df_def)

lemma nrows_to_numeric_df [simp]: "nrows (to_numeric_df lib df) = nrows df"
  by (simp add: to_numeric_df_def)

lemma coerce_series_number: "is_number_dtype (dtype s) \<Longrightarrow> coerce_series lib s = s"
  by (cases "dtype s") (simp_all add: coerce_series_def)

lemma numeric_column_kept:
  assumes "s \<in> set (frame_series df)" and "is_number_dtype (dtype s)"
  shows "label s \<in> set (numeric_columns (to_numeric_df lib df))"
proof -
  from assms have "coerce_series lib s \<in> set (frame_series (to_numeric_df lib df))"
    by (simp add: to_numeric_df_def)
  with assms(2) show ?thesis
    by (auto simp: numeric_columns_def coerce_series_number intro!: image_eqI [where x = s])
qed

lemma numeric_columns_subset: "set (numeric_columns df) \<subseteq> set (df_columns df)"
  by (auto simp: numeric_columns_def df_columns_def)

lemma detect_date_loop_label: "detect_date_loop lib ss = Some c \<Longrightarrow> c \<in> label ` set ss"
  by (induction ss) (auto split: if_splits)

lemma detect_date_column_label: "detect_date_column lib df = Some c \<Longrightarrow> c \<in> set (df_columns df)"
  by (auto simp: detect_date_column_def df_columns_def dest: detect_date_loop_label)

lemma first_preferred_member:
  "first_preferred prefs cols numeric_cols = Some c \<Longrightarrow> c \<in> set cols \<and> c \<in> set numeric_cols"
  by (induction prefs) (auto split: option.splits simp: find_Some_iff)

lemma to_numeric_step_eq:
  "to_numeric_step lib (length h) (h @ [d]) k =
   h @ [d\<lparr>frame_series := (frame_series d)[k := coerce_series lib (frame_series d ! k)]\<rparr>]"
proof (cases "dtype (frame_series d ! k) = Object")
  case True
  then show ?thesis
    by (simp add: to_numeric_step_def setitem_def coerce_series_def Let_def)
next
  case False
  then have "(frame_series d)[k := coerce_series lib (frame_series d ! k)] = frame_series d"
    by (simp add: coerce_series_def)
  with False show ?thesis
    by (simp add: to_numeric_step_def Let_def)
qed

lemma coerce_prefix_step:
  assumes "k < length ss"
  shows "(map f (take k ss) @ drop k ss)[k := f ((map f (take k ss) @ drop k ss) ! k)] =
         map f (take (Suc k) ss) @ drop (Suc k) ss"
proof -
  have "drop k ss = ss ! k # drop (Suc k) ss"
    using assms by (simp add: Cons_nth_drop_Suc)
  then show ?thesis
    using assms by (simp add: take_Suc_conv_app_nth list_update_append nth_append)
qed

lemma to_numeric_steps:
  assumes "k \<le> length (frame_series df)"
  shows "foldl (to_numeric_step lib (length h)) (h @ [df]) [0 ..< k] =
         h @ [df\<lparr>frame_series := map (coerce_series lib) (take k (frame_series df)) @ drop k (frame_series df)\<rparr>]"
  using assms
proof (induction k)
  case 0
  then show ?case by simp
next
  case (Suc k)
  then have k: "k < length (frame_series df)" by simp
  show ?case
    using Suc k by (simp add: to_numeric_step_eq coerce_prefix_step)
qed

lemma to_numeric_df_store_eq:
  "a < length h \<Longrightarrow> to_numeric_df_store lib h a = (h @ [to_numeric_df lib (h ! a)], length h)"
  using to_numeric_steps [of "length (frame_series (h ! a))" "h ! a" lib h]
  by (simp add: to_numeric_df_store_def df_copy_def to_numeric_df_def)

lemma choose_axes_store_eq:
  "a < length h \<Longrightarrow> choose_axes_store lib h a = (h @ [to_numeric_df lib (h ! a)], choose_axes lib (h ! a))"
  by (simp add: choose_axes_store_def to_numeric_df_store_eq choose_axes_def)

section \<open>The selection rules\<close>

lemma date_rule_shape:
  assumes "date_rule date_col cols numeric_cols = Some (x, y, kind)"
  shows "kind = ''line'' \<and> x = date_col \<and> date_col \<noteq> None \<and>
         (\<exists>c. y = Some c \<and> c \<in> set numeric_cols)"
proof -
  from assms obtain d where d: "date_col = Some d" "d \<noteq> []"
    by (auto simp: date_rule_def split: option.splits if_splits)
  show ?thesis
  proof (cases "first_preferred [''temperature'', ''temp'', ''salinity'', ''pressure''] cols numeric_cols")
    case (Some c)
    from d Some have "date_rule date_col cols numeric_cols = Some (Some d, Some c, ''line'')"
      by (simp add: date_rule_def del: first_preferred.simps)
    with assms have "x = Some d" "y = Some c" "kind = ''line''" by simp_all
    with d first_preferred_member [OF Some] show ?thesis by simp
  next
    case None
    show ?thesis
    proof (cases numeric_cols)
      case Nil
      with assms d None show ?thesis
        by (simp add: date_rule_def del: first_preferred.simps)
    next
      case (Cons n ns)
      with d None have "date_rule date_col cols numeric_cols = Some (Some d, Some n, ''line'')"
        by (simp add: date_rule_def del: first_preferred.simps)
      with assms have "x = Some d" "y = Some n" "kind = ''line''" by simp_all
      with d Cons show ?thesis by simp
    qed
  qed
qed

lemma pressure_rule_shape:
  assumes "pressure_rule cols numeric_cols = Some (x, y, kind)"
  shows "kind = ''line'' \<and> (\<exists>c. x = Some c \<and> c \<in> set numeric_cols) \<and>
         (\<exists>p. y = Some p \<and> p \<in> set cols)"
proof -
  from assms obtain p where
    p: "find (\<lambda>c. ''pressure'' = lower c \<or> substring_of ''pressure'' (lower c)) cols = Some p"
      "p \<noteq> []"
    by (auto simp: pressure_rule_def split: option.splits if_splits)
  from p(1) have mem: "p \<in> set cols"
    by (auto simp: find_Some_iff)
  show ?thesis
  proof (cases "first_preferred [''temperature'', ''salinity'', ''temp''] cols numeric_cols")
    case (Some c)
    from p Some have "pressure_rule cols numeric_cols = Some (Some c, Some p, ''line'')"
      by (simp add: pressure_rule_def del: first_preferred.simps)
    with assms have "x = Some c" "y = Some p" "kind = ''line''" by simp_all
    with mem first_preferred_member [OF Some] show ?thesis by simp
  next
    case None
    show ?thesis
    proof (cases "filter (\<lambda>c. c \<noteq> p) numeric_cols")
      case Nil
      with assms p None show ?thesis
        by (simp add: pressure_rule_def del: first_preferred.simps)
    next
      case (Cons other rest)
      then have "other \<in> set (filter (\<lambda>c. c \<noteq> p) numeric_cols)" by simp
      then have "other \<in> set numeric_cols" by simp
      moreover from p None Cons have
        "pressure_rule cols numeric_cols = Some (Some other, Some p, ''line'')"
        by (simp add: pressure_rule_def del: first_preferred.simps)
      with assms have "x = Some other" "y = Some p" "kind = ''line''" by simp_all
      ultimately show ?thesis using mem by simp
    qed
  qed
qed

lemma profile_or_scatter_shape:
  assumes "profile_or_scatter cols numeric_cols = (x, y, kind)"
  shows "(kind = ''table'' \<and> x = None \<and> y = None) \<or>
         ((kind = ''line'' \<or> kind = ''scatter'') \<and>
          (\<exists>c. x = Some c \<and> c \<in> set numeric_cols) \<and>
          (\<exists>p. y = Some p \<and> p \<in> set cols \<union> set numeric_cols))"
proof (cases "pressure_rule cols numeric_cols")
  case None
  with assms show ?thesis
    by (auto simp: profile_or_scatter_def split: list.splits)
next
  case (Some r)
  with assms have "pressure_rule cols numeric_cols = Some (x, y, kind)"
    by (simp add: profile_or_scatter_def)
  from pressure_rule_shape [OF this] show ?thesis by auto
qed

lemma select_axes_shape:
  assumes "select_axes lib df = (x, y, kind)"
  shows "(x = None \<and> y = None \<and> (kind = ''bar'' \<or> kind = ''table'')) \<or>
         ((kind = ''line'' \<or> kind = ''scatter'') \<and>
          (\<exists>cx cy. x = Some cx \<and> y = Some cy \<and>
             cx \<in> set (df_columns df) \<and> cy \<in> set (df_columns df)))"
proof (cases "nrows df = 1 \<and> numeric_columns df \<noteq> []")
  case True
  with assms show ?thesis by (auto simp: select_axes_def)
next
  case False
  note sub = numeric_columns_subset [of df]
  show ?thesis
  proof (cases "date_rule (detect_date_column lib df) (df_columns df) (numeric_columns df)")
    case None
    with False assms have "profile_or_scatter (df_columns df) (numeric_columns df) = (x, y, kind)"
      by (auto simp: select_axes_def Let_def)
    from profile_or_scatter_shape [OF this] sub show ?thesis by auto
  next
    case (Some r)
    with False assms have
      "date_rule (detect_date_column lib df) (df_columns df) (numeric_columns df) = Some (x, y, kind)"
      by (auto simp: select_axes_def Let_def)
    from date_rule_shape [OF this] sub show ?thesis
      by (auto dest: detect_date_column_label)
  qed
qed

lemma detect_date_loop_Some:
  "detect_date_loop lib ss = Some c \<longleftrightarrow>
   (\<exists>before s after. ss = before @ s # after \<and> label s = c \<and> date_like lib s \<and>
      (\<forall>t \<in> set before. \<not> date_like lib t))"
proof (induction ss)
  case Nil
  then show ?case by simp
next
  case (Cons a ss)
  show ?case
  proof (cases "date_like lib a")
    case True
    then have "detect_date_loop lib (a # ss) = Some (label a)"
      by (auto simp: date_like_def)
    moreover have "(\<exists>before s after. a # ss = before @ s # after \<and> label s = c \<and>
        date_like lib s \<and> (\<forall>t \<in> set before. \<not> date_like lib t)) \<longleftrightarrow> label a = c"
    proof
      assume "\<exists>before s after. a # ss = before @ s # after \<and> label s = c \<and>
        date_like lib s \<and> (\<forall>t \<in> set before. \<not> date_like lib t)"
      then obtain before s after where *: "a # ss = before @ s # after" "label s = c"
        "\<forall>t \<in> set before. \<not> date_like lib t" by blast
      with True show "label a = c"
        by (cases before) auto
    next
      assume "label a = c"
      with True have "a # ss = [] @ a # ss \<and> label a = c \<and> date_like lib a \<and>
          (\<forall>t \<in> set []. \<not> date_like lib t)" by simp
      then show "\<exists>before s after. a # ss = before @ s # after \<and> label s = c \<and>
        date_like lib s \<and> (\<forall>t \<in> set before. \<not> date_like lib t)" by blast
    qed
    ultimately show ?thesis by auto
  next
    case False
    then have step: "detect_date_loop lib (a # ss) = detect_date_loop lib ss"
      by (auto simp: date_like_def)
    have "(\<exists>before s after. a # ss = before @ s # after \<and> label s = c \<and>
        date_like lib s \<and> (\<forall>t \<in> set before. \<not> date_like lib t)) \<longleftrightarrow>
      (\<exists>before s after. ss = before @ s # after \<and> label s = c \<and>
        date_like lib s \<and> (\<forall>t \<in> set before. \<not> date_like lib t))"
    proof
      assume "\<exists>before s after. a # ss = before @ s # after \<and> label s = c \<and>
        date_like lib s \<and> (\<forall>t \<in> set before. \<not> date_like lib t)"
      then obtain before s after where *: "a # ss = before @ s # after" "label s = c"
        "date_like lib s" "\<forall>t \<in> set before. \<not> date_like lib t" by blast
      with False obtain before' where "before = a # before'"
        by (cases before) auto
      with * have "ss = before' @ s # after \<and> label s = c \<and> date_like lib s \<and>
          (\<forall>t \<in> set before'. \<not> date_like lib t)" by simp
      then show "\<exists>before s after. ss = before @ s # after \<and> label s = c \<and>
        date_like lib s \<and> (\<forall>t \<in> set before. \<not> date_like lib t)" by blast
    next
      assume "\<exists>before s after. ss = before @ s # after \<and> label s = c \<and>
        date_like lib s \<and> (\<forall>t \<in> set before. \<not> date_like lib t)"
      then obtain before s after where *: "ss = before @ s # after" "label s = c"
        "date_like lib s" "\<forall>t \<in> set before. \<not> date_like lib t" by blast
      with False have "a # ss = (a # before) @ s # after \<and> label s = c \<and> date_like lib s \<and>
          (\<forall>t \<in> set (a # before). \<not> date_like lib t)" by simp
      then show "\<exists>before s after. a # ss = before @ s # after \<and> label s = c \<and>
        date_like lib s \<and> (\<forall>t \<in> set before. \<not> date_like lib t)" by blast
    qed
    with step Cons.IH show ?thesis by simp
  qed
qed

lemma detect_date_loop_None:
  "detect_date_loop lib ss = None \<longleftrightarrow> (\<forall>s \<in> set ss. \<not> date_like lib s)"
  by (induction ss) (auto simp: date_like_def)

lemma no_parse_not_date_like:
  assumes "\<not> to_datetime_strict lib s" and "\<forall>b \<in> set (to_datetime_notna lib s). \<not> b"
  shows "\<not> date_like lib s"
proof -
  from assms(2) have "filter (\<lambda>b. b) (to_datetime_notna lib s) = []"
    by (simp add: filter_empty_conv)
  with assms(1) show ?thesis
    by (simp add: date_like_def enough_dates_def)
qed

lemma select_axes_no_date:
  assumes "detect_date_column lib df = None"
    and "\<not> (nrows df = 1 \<and> numeric_columns df \<noteq> [])"
  shows "select_axes lib df = profile_or_scatter (df_columns df) (numeric_columns df)"
  using assms by (auto simp: select_axes_def date_rule_def Let_def)

lemma select_axes_date:
  assumes "detect_date_column lib df = Some c"
    and "\<not> (nrows df = 1 \<and> numeric_columns df \<noteq> [])"
    and "numeric_columns df \<noteq> []"
  shows "\<exists>y. y \<in> set (numeric_columns df) \<and> select_axes lib df = (Some c, Some y, ''line'')"
proof -
  let ?prefs = "[''temperature'', ''temp'', ''salinity'', ''pressure'']"
  from assms(1) have "c \<in> label ` set (frame_series df)"
    by (auto simp: detect_date_column_def dest: detect_date_loop_label)
  from assms(1) have "detect_date_loop lib (frame_series df) = Some c"
    by (simp add: detect_date_column_def)
  then obtain s where "label s = c" "date_like lib s"
    unfolding detect_date_loop_Some by blast
  then have "substring_of ''date'' (lower c)"
    by (auto simp: date_like_def)
  then have nonempty: "c \<noteq> []"
    by (auto simp: lower_def)
  show ?thesis
  proof (cases "first_preferred ?prefs (df_columns df) (numeric_columns df)")
    case (Some y)
    with assms nonempty have "select_axes lib df = (Some c, Some y, ''line'')"
      by (simp add: select_axes_def date_rule_def Let_def del: first_preferred.simps)
    with first_preferred_member [OF Some] show ?thesis by blast
  next
    case None
    from assms(3) obtain n ns where "numeric_columns df = n # ns"
      by (cases "numeric_columns df") auto
    with None assms nonempty have "n \<in> set (numeric_columns df) \<and>
        select_axes lib df = (Some c, Some n, ''line'')"
      by (simp add: select_axes_def date_rule_def Let_def del: first_preferred.simps)
    then show ?thesis by blast
  qed
qed

section \<open>The selection on the example tables\<close>

lemmas sample_eval =
  choose_axes_def select_axes_def to_numeric_df_def coerce_series_def to_numeric_ignore_def
  sample_pandas_def sample_to_numeric_def float_cells_def df_columns_def numeric_columns_def
  detect_date_column_def enough_dates_def date_rule_def profile_or_scatter_def pressure_rule_def
  lower_def lower_char_def iso_date_def is_digit_def

lemma sparse_dates_coerced: "to_numeric_df sample_pandas sparse_dates = sparse_dates"
  by (simp add: sample_eval sparse_dates_def)

lemma sparse_dates_detected: "detect_date_column sample_pandas sparse_dates = Some ''date''"
  by (simp add: sample_eval sparse_dates_def)

lemma sparse_dates_axes:
  "choose_axes sample_pandas sparse_dates = (Some ''date'', Some ''temperature'', ''line'')"
  by (simp add: sample_eval sparse_dates_def)

lemma dated_table_axes:
  "choose_axes sample_pandas dated_table = (Some ''date'', Some ''temperature'', ''line'')"
  by (simp add: sample_eval dated_table_def)

lemma later_table_axes:
  "choose_axes sample_pandas later_table = (Some ''date'', Some ''temperature'', ''line'')"
  by (simp add: sample_eval later_table_def)

lemma undated_table_axes: "choose_axes sample_pandas undated_table = (None, None, ''table'')"
  by (simp add: sample_eval undated_table_def)

lemma undated_table_coerced: "to_numeric_df sample_pandas undated_table = undated_table"
  by (simp add: sample_eval undated_table_def)

lemma undated_table_detected: "detect_date_column sample_pandas undated_table = None"
  by (simp add: sample_eval undated_table_def)

lemma full_profile_axes:
  "choose_axes sample_pandas full_profile = (Some ''temperature'', Some ''pressure'', ''line'')"
  by (simp add: sample_eval full_profile_def)

lemma surface_sample_axes: "choose_axes sample_pandas surface_sample = (None, None, ''bar'')"
  by (simp add: sample_eval surface_sample_def)

lemma single_row_axes: "choose_axes sample_pandas single_row = (None, None, ''bar'')"
  by (simp add: choose_axes_def select_axes_def to_numeric_df_def coerce_series_def
      to_numeric_ignore_def sample_pandas_def sample_to_numeric_def single_row_def float_cells_def
      df_columns_def numeric_columns_def is_digit_def)

lemma salinity_profile_axes:
  "choose_axes sample_pandas salinity_profile = (Some ''salinity'', Some ''pressure'', ''line'')"
  by (simp add: choose_axes_def select_axes_def to_numeric_df_def coerce_series_def
      salinity_profile_def float_cells_def df_columns_def numeric_columns_def
      detect_date_column_def date_rule_def profile_or_scatter_def pressure_rule_def
      lower_def lower_char_def)

section \<open>The claims on chart selection\<close>

text \<open>
  Claim C3, as the code has it: \<open>detect_date_column\<close> returns the first column whose
  name contains "date" case-insensitively and for which either the strict parse succeeds
  or the number of values that parse is at least \<open>max(1, n div 4)\<close>, \<open>n\<close> being the
  number of entries of the column, null ones included. A name-matching column whose
  strict parse fails and none of whose values parses is excluded. Unless the single-row
  bar rule applies, \<open>choose_axes\<close> goes on to the pressure rule when no column is
  detected, and returns a line chart over the detected column when one is and a numeric
  column exists.
\<close>

theorem detect_date_column_rule:
  "(detect_date_column lib df = Some c \<longleftrightarrow>
      (\<exists>before s after. frame_series df = before @ s # after \<and> label s = c \<and>
         date_like lib s \<and> (\<forall>t \<in> set before. \<not> date_like lib t))) \<and>
   (detect_date_column lib df = None \<longleftrightarrow> (\<forall>s \<in> set (frame_series df). \<not> date_like lib s)) \<and>
   (date_like lib s \<longleftrightarrow>
      substring_of ''date'' (lower (label s)) \<and>
      (to_datetime_strict lib s \<or>
       max 1 (length (to_datetime_notna lib s) div 4)
         \<le> length (filter (\<lambda>b. b) (to_datetime_notna lib s)))) \<and>
   (\<not> to_datetime_strict lib s \<and> (\<forall>b \<in> set (to_datetime_notna lib s). \<not> b) \<longrightarrow>
      \<not> date_like lib s) \<and>
   (\<not> (nrows df = 1 \<and> numeric_columns (to_numeric_df lib df) \<noteq> []) \<longrightarrow>
      (detect_date_column lib (to_numeric_df lib df) = None \<longrightarrow>
         choose_axes lib df =
           profile_or_scatter (df_columns df) (numeric_columns (to_numeric_df lib df))) \<and>
      (detect_date_column lib (to_numeric_df lib df) = Some c \<and>
       numeric_columns (to_numeric_df lib df) \<noteq> [] \<longrightarrow>
         (\<exists>y. choose_axes lib df = (Some c, Some y, ''line''))))"
proof -
  have found: "detect_date_column lib df = Some c \<longleftrightarrow>
      (\<exists>before s after. frame_series df = before @ s # after \<and> label s = c \<and>
         date_like lib s \<and> (\<forall>t \<in> set before. \<not> date_like lib t))"
    unfolding detect_date_column_def by (rule detect_date_loop_Some)
  have absent: "detect_date_column lib df = None \<longleftrightarrow>
      (\<forall>s \<in> set (frame_series df). \<not> date_like lib s)"
    unfolding detect_date_column_def by (rule detect_date_loop_None)
  have test: "date_like lib s \<longleftrightarrow>
      substring_of ''date'' (lower (label s)) \<and>
      (to_datetime_strict lib s \<or>
       max 1 (length (to_datetime_notna lib s) div 4)
         \<le> length (filter (\<lambda>b. b) (to_datetime_notna lib s)))"
    by (simp only: date_like_def enough_dates_def)
  have excluded: "\<not> to_datetime_strict lib s \<and> (\<forall>b \<in> set (to_datetime_notna lib s). \<not> b) \<longrightarrow>
      \<not> date_like lib s"
    using no_parse_not_date_like [of lib s] by blast
  have onward: "\<not> (nrows df = 1 \<and> numeric_columns (to_numeric_df lib df) \<noteq> []) \<longrightarrow>
      (detect_date_column lib (to_numeric_df lib df) = None \<longrightarrow>
         choose_axes lib df =
           profile_or_scatter (df_columns df) (numeric_columns (to_numeric_df lib df))) \<and>
      (detect_date_column lib (to_numeric_df lib df) = Some c \<and>
       numeric_columns (to_numeric_df lib df) \<noteq> [] \<longrightarrow>
         (\<exists>y. choose_axes lib df = (Some c, Some y, ''line'')))"
  proof (intro impI conjI)
    assume "\<not> (nrows df = 1 \<and> numeric_columns (to_numeric_df lib df) \<noteq> [])"
      and "detect_date_column lib (to_numeric_df lib df) = None"
    then show "choose_axes lib df =
        profile_or_scatter (df_columns df) (numeric_columns (to_numeric_df lib df))"
      using select_axes_no_date [of lib "to_numeric_df lib df"]
      by (simp add: choose_axes_def)
  next
    assume "\<not> (nrows df = 1 \<and> numeric_columns (to_numeric_df lib df) \<noteq> [])"
      and "detect_date_column lib (to_numeric_df lib df) = Some c \<and>
        numeric_columns (to_numeric_df lib df) \<noteq> []"
    then show "\<exists>y. choose_axes lib df = (Some c, Some y, ''line'')"
      using select_axes_date [of lib "to_numeric_df lib df" c]
      by (auto simp: choose_axes_def)
  qed
  show ?thesis
    by (intro conjI found absent test excluded onward)
qed

theorem detect_date_column_rule_witness:
  "detect_date_column sample_pandas sparse_dates = Some ''date'' \<and>
   date_like sample_pandas (hd (frame_series sparse_dates)) \<and>
   choose_axes sample_pandas sparse_dates = (Some ''date'', Some ''temperature'', ''line'') \<and>
   detect_date_column sample_pandas undated_table = None \<and>
   \<not> date_like sample_pandas (hd (frame_series undated_table)) \<and>
   choose_axes sample_pandas undated_table =
     profile_or_scatter (df_columns undated_table) (numeric_columns undated_table)"
  using detect_date_column_rule [of sample_pandas sparse_dates "''date''" "hd (frame_series sparse_dates)"]
    detect_date_column_rule [of sample_pandas undated_table "''date''" "hd (frame_series undated_table)"]
    sparse_dates_detected undated_table_detected sparse_dates_axes
  unfolding sparse_dates_coerced undated_table_coerced
  by (simp add: sample_eval sparse_dates_def undated_table_def)

text \<open>
  Claim C3 as stated fails: in a table whose column \<open>date\<close> holds seven non-null strings
  of which one parses, the strict parse fails and one in seven is less than 25 per cent,
  yet the column is detected and \<open>choose_axes\<close> returns a line chart over it.
\<close>

theorem quarter_of_non_null_counterexample:
  "to_numeric_df sample_pandas sparse_dates = sparse_dates \<and>
   detect_date_column sample_pandas sparse_dates = Some ''date'' \<and>
   choose_axes sample_pandas sparse_dates = (Some ''date'', Some ''temperature'', ''line'') \<and>
   length (filter (\<lambda>v. \<not> is_null v) (cells (hd (frame_series sparse_dates)))) = 7 \<and>
   length (filter (\<lambda>b. b) (to_datetime_notna sample_pandas (hd (frame_series sparse_dates)))) = 1 \<and>
   \<not> to_datetime_strict sample_pandas (hd (frame_series sparse_dates)) \<and>
   filter (spec_date_like sample_pandas) (frame_series sparse_dates) = []"
  unfolding sparse_dates_coerced sparse_dates_detected sparse_dates_axes
  by (simp add: sparse_dates_def sample_pandas_def spec_date_like_def iso_date_def is_digit_def
      lower_def lower_char_def float_cells_def)

text \<open>
  Claim C4, as the code has it: \<open>choose_axes\<close> works on a copy, so every frame of the
  store, its input among them, is unchanged after the call, and the result is the value
  computed from the input frame alone. The result is determined by the column names, the
  row count, the columns that are numeric after coercion and the column that
  \<open>detect_date_column\<close> selects in the coerced frame; the last two depend on the cells.
\<close>

theorem choose_axes_inputs:
  "(a < length h \<longrightarrow>
      take (length h) (fst (choose_axes_store lib h a)) = h \<and>
      fst (choose_axes_store lib h a) ! a = h ! a \<and>
      snd (choose_axes_store lib h a) = choose_axes lib (h ! a)) \<and>
   (df_columns df1 = df_columns df2 \<and> nrows df1 = nrows df2 \<and>
    numeric_columns (to_numeric_df lib df1) = numeric_columns (to_numeric_df lib df2) \<and>
    detect_date_column lib (to_numeric_df lib df1) = detect_date_column lib (to_numeric_df lib df2) \<longrightarrow>
      choose_axes lib df1 = choose_axes lib df2)"
proof -
  have unchanged: "a < length h \<longrightarrow>
      take (length h) (fst (choose_axes_store lib h a)) = h \<and>
      fst (choose_axes_store lib h a) ! a = h ! a \<and>
      snd (choose_axes_store lib h a) = choose_axes lib (h ! a)"
    by (simp add: choose_axes_store_eq nth_append)
  have determined: "df_columns df1 = df_columns df2 \<and> nrows df1 = nrows df2 \<and>
    numeric_columns (to_numeric_df lib df1) = numeric_columns (to_numeric_df lib df2) \<and>
    detect_date_column lib (to_numeric_df lib df1) = detect_date_column lib (to_numeric_df lib df2) \<longrightarrow>
      choose_axes lib df1 = choose_axes lib df2"
    by (clarsimp simp: choose_axes_def select_axes_def Let_def)
  show ?thesis
    by (intro conjI unchanged determined)
qed

theorem choose_axes_inputs_witness:
  "fst (choose_axes_store sample_pandas [dated_table] 0) ! 0 = dated_table \<and>
   snd (choose_axes_store sample_pandas [dated_table] 0) = (Some ''date'', Some ''temperature'', ''line'') \<and>
   cells (hd (frame_series dated_table)) \<noteq> cells (hd (frame_series later_table)) \<and>
   choose_axes sample_pandas dated_table = choose_axes sample_pandas later_table"
proof -
  have "df_columns dated_table = df_columns later_table \<and> nrows dated_table = nrows later_table \<and>
    numeric_columns (to_numeric_df sample_pandas dated_table) =
      numeric_columns (to_numeric_df sample_pandas later_table) \<and>
    detect_date_column sample_pandas (to_numeric_df sample_pandas dated_table) =
      detect_date_column sample_pandas (to_numeric_df sample_pandas later_table)"
    by (simp add: sample_eval dated_table_def later_table_def)
  moreover have "cells (hd (frame_series dated_table)) \<noteq> cells (hd (frame_series later_table))"
    by (simp add: dated_table_def later_table_def)
  ultimately show ?thesis
    using choose_axes_inputs [of 0 "[dated_table]" sample_pandas dated_table later_table]
      dated_table_axes
    by simp
qed

text \<open>
  Claim C4 as stated fails: two tables with the same column names, the same column types
  and the same row count, whose \<open>date\<close> columns hold dates in one and other text in the
  other, get different results.
\<close>

theorem shape_alone_counterexample:
  "same_shape dated_table undated_table \<and>
   choose_axes sample_pandas dated_table = (Some ''date'', Some ''temperature'', ''line'') \<and>
   choose_axes sample_pandas undated_table = (None, None, ''table'')"
  unfolding dated_table_axes undated_table_axes
  by (simp add: same_shape_def df_columns_def dated_table_def undated_table_def)

text \<open>
  Claim C8: for every table with exactly one row and at least one numeric column (a
  column of a numeric dtype, or one that is numeric once coerced), \<open>choose_axes\<close> returns
  the kind \<open>bar\<close> with x and y unset.
\<close>

theorem single_row_bar:
  assumes "nrows df = 1"
    and "(\<exists>s \<in> set (frame_series df). is_number_dtype (dtype s)) \<or>
         numeric_columns (to_numeric_df lib df) \<noteq> []"
  shows "choose_axes lib df = (None, None, ''bar'')"
proof -
  have "numeric_columns (to_numeric_df lib df) \<noteq> []"
  proof (cases "\<exists>s \<in> set (frame_series df). is_number_dtype (dtype s)")
    case True
    then obtain s where "s \<in> set (frame_series df)" "is_number_dtype (dtype s)"
      by blast
    then have "label s \<in> set (numeric_columns (to_numeric_df lib df))"
      by (rule numeric_column_kept)
    then show ?thesis by auto
  next
    case False
    with assms(2) show ?thesis by simp
  qed
  with assms(1) show ?thesis
    by (simp add: choose_axes_def select_axes_def)
qed

theorem single_row_bar_witness:
  "nrows single_row = 1 \<and>
   list_ex (\<lambda>s. is_number_dtype (dtype s)) (frame_series single_row) \<and>
   choose_axes sample_pandas single_row = (None, None, ''bar'')"
proof -
  have "nrows single_row = 1"
    by (simp add: single_row_def)
  moreover have "\<exists>s \<in> set (frame_series single_row). is_number_dtype (dtype s)"
    by (simp add: single_row_def)
  ultimately show ?thesis
    using single_row_bar [of single_row sample_pandas] by (simp add: list_ex_iff)
qed

text \<open>
  Claim C9, as the code has it: for every table whose row count is not one, in which no
  date column is detected, whose first column with a name containing "pressure" is
  \<open>pressure\<close>, whose first numeric column with a name containing "salinity" is
  \<open>salinity\<close>, and which has no numeric column with a name containing "temperature",
  \<open>choose_axes\<close> returns x = \<open>salinity\<close>, y = \<open>pressure\<close>, kind = \<open>line\<close>.
\<close>

theorem pressure_salinity_line:
  assumes rows: "nrows df \<noteq> 1"
    and no_date: "detect_date_column lib (to_numeric_df lib df) = None"
    and pressure: "find (\<lambda>c. ''pressure'' = lower c \<or> substring_of ''pressure'' (lower c))
        (df_columns df) = Some ''pressure''"
    and salinity: "find (\<lambda>c. substring_of ''salinity'' (lower c) \<and>
        c \<in> set (numeric_columns (to_numeric_df lib df))) (df_columns df) = Some ''salinity''"
    and no_temperature: "\<forall>c \<in> set (numeric_columns (to_numeric_df lib df)).
        \<not> substring_of ''temperature'' (lower c)"
  shows "choose_axes lib df = (Some ''salinity'', Some ''pressure'', ''line'')"
proof -
  let ?num = "numeric_columns (to_numeric_df lib df)"
  from no_temperature have
    "find (\<lambda>c. substring_of ''temperature'' (lower c) \<and> c \<in> set ?num) (df_columns df) = None"
    by (auto simp: find_None_iff)
  with salinity have
    "first_preferred [''temperature'', ''salinity'', ''temp''] (df_columns df) ?num = Some ''salinity''"
    by simp
  with pressure have "pressure_rule (df_columns df) ?num =
      Some (Some ''salinity'', Some ''pressure'', ''line'')"
    by (simp add: pressure_rule_def del: first_preferred.simps)
  then have "profile_or_scatter (df_columns df) ?num = (Some ''salinity'', Some ''pressure'', ''line'')"
    by (simp add: profile_or_scatter_def)
  moreover have "choose_axes lib df = profile_or_scatter (df_columns df) ?num"
    using select_axes_no_date [of lib "to_numeric_df lib df"] rows no_date
    by (simp add: choose_axes_def)
  ultimately show ?thesis by simp
qed

theorem pressure_salinity_line_witness:
  "nrows salinity_profile \<noteq> 1 \<and>
   detect_date_column sample_pandas (to_numeric_df sample_pandas salinity_profile) = None \<and>
   choose_axes sample_pandas salinity_profile = (Some ''salinity'', Some ''pressure'', ''line'')"
proof -
  have "nrows salinity_profile \<noteq> 1"
    and "detect_date_column sample_pandas (to_numeric_df sample_pandas salinity_profile) = None"
    and "find (\<lambda>c. ''pressure'' = lower c \<or> substring_of ''pressure'' (lower c))
        (df_columns salinity_profile) = Some ''pressure''"
    and "find (\<lambda>c. substring_of ''salinity'' (lower c) \<and>
        c \<in> set (numeric_columns (to_numeric_df sample_pandas salinity_profile)))
        (df_columns salinity_profile) = Some ''salinity''"
    and "\<forall>c \<in> set (numeric_columns (to_numeric_df sample_pandas salinity_profile)).
        \<not> substring_of ''temperature'' (lower c)"
    by (simp_all add: sample_eval salinity_profile_def)
  then show ?thesis
    using pressure_salinity_line [of salinity_profile sample_pandas] by simp
qed

text \<open>
  Claim C9 as stated fails: a table with numeric columns \<open>pressure\<close>, \<open>salinity\<close> and
  \<open>temperature\<close> and no date column gets x = \<open>temperature\<close>, which the pressure rule
  prefers to \<open>salinity\<close>; and a one-row table with columns \<open>pressure\<close> and \<open>salinity\<close>
  gets a bar chart.
\<close>

theorem temperature_first_counterexample:
  "''pressure'' \<in> set (df_columns full_profile) \<and>
   ''salinity'' \<in> set (df_columns full_profile) \<and>
   filter (\<lambda>c. substring_of ''date'' (lower c)) (df_columns full_profile) = [] \<and>
   choose_axes sample_pandas full_profile = (Some ''temperature'', Some ''pressure'', ''line'') \<and>
   ''pressure'' \<in> set (df_columns surface_sample) \<and>
   ''salinity'' \<in> set (df_columns surface_sample) \<and>
   filter (\<lambda>c. substring_of ''date'' (lower c)) (df_columns surface_sample) = [] \<and>
   choose_axes sample_pandas surface_sample = (None, None, ''bar'')"
  unfolding full_profile_axes surface_sample_axes
  by (simp add: df_columns_def full_profile_def surface_sample_def lower_def lower_char_def)

text \<open>
  Claim C10: for every table, \<open>choose_axes\<close> returns x and y both unset if and only if
  the kind is \<open>bar\<close> or \<open>table\<close>; when the kind is \<open>line\<close> or \<open>scatter\<close>, x and y are
  both names of columns of the table; and the kind is one of the four.
\<close>

theorem axes_unset_iff_bar_or_table:
  assumes "choose_axes lib df = (x, y, kind)"
  shows "((x = None \<and> y = None) \<longleftrightarrow> (kind = ''bar'' \<or> kind = ''table'')) \<and>
         (kind = ''line'' \<or> kind = ''scatter'' \<longrightarrow>
            (\<exists>cx cy. x = Some cx \<and> y = Some cy \<and>
               cx \<in> set (df_columns df) \<and> cy \<in> set (df_columns df))) \<and>
         kind \<in> {''bar'', ''line'', ''scatter'', ''table''}"
  using select_axes_shape [of lib "to_numeric_df lib df" x y kind] assms
  by (auto simp: choose_axes_def)
theorem axes_unset_iff_bar_or_table_witness:
  "choose_axes sample_pandas salinity_profile = (Some ''salinity'', Some ''pressure'', ''line'') \<and>
   ''salinity'' \<in> set (df_columns salinity_profile) \<and>
   ''pressure'' \<in> set (df_columns salinity_profile) \<and>
   choose_axes sample_pandas single_row = (None, None, ''bar'')"
  using axes_unset_iff_bar_or_table [OF salinity_profile_axes]
    axes_unset_iff_bar_or_table [OF single_row_axes] salinity_profile_axes single_row_axes
  by simp

end
